theory Spec2Isabelle
  imports Complex_Main "HOL-Library.Multiset"
begin

section \<open>JavaScript values\<close>

text \<open>
  The server of \<^verbatim>\<open>src/index.js\<close> handles JSON values: the request body that
  \<^verbatim>\<open>express.json()\<close> produced and the value that \<^verbatim>\<open>JSON.parse\<close> returns for
  the model's reply. A number is a finite value or, when a literal overflows
  (\<^verbatim>\<open>1e999\<close>), an infinity; \<^verbatim>\<open>JSON.parse\<close> never yields NaN. Finite doubles are
  rationals, and the comparisons and \<^verbatim>\<open>Math.round\<close> used here are exact on them.
  A string is its sequence of code units; the model covers code units below 256.
  An object is its list of properties, read with \<open>map_of\<close>.
\<close>

datatype number = Finite rat | PosInfinity | NegInfinity

datatype jsval =
    JUndefined
  | JNull
  | JBool bool
  | JNum number
  | JStr string
  | JArr "jsval list"
  | JObj "(string \<times> jsval) list"

text \<open>
  Exceptions. \<open>Error m\<close> is \<^verbatim>\<open>new Error(m)\<close>, also what an external call rejects
  with; \<open>TypeError\<close> is what the runtime throws when a property of \<^verbatim>\<open>undefined\<close> or
  \<^verbatim>\<open>null\<close> is read or a non-function is called, \<open>SyntaxError\<close> what
  \<^verbatim>\<open>JSON.parse\<close> throws, and \<open>CastError\<close> what mongoose rejects a query with when
  it cannot cast the \<^verbatim>\<open>_id\<close> to an ObjectId; the message text of the last three is
  not modelled. Every thrown value is an error object, so reading its \<^verbatim>\<open>message\<close>
  never throws.
\<close>

datatype exn = Error string | TypeError | SyntaxError | CastError

text \<open>The result of an awaited call to an external collaborator.\<close>

datatype 'a outcome = Resolved 'a | Rejected exn

fun nullish :: "jsval \<Rightarrow> bool" where
  "nullish JUndefined = True"
| "nullish JNull = True"
| "nullish _ = False"

text \<open>
  \<^verbatim>\<open>v.k\<close> for a value that is not nullish, at the property names this program reads
  (\<^verbatim>\<open>title\<close>, \<^verbatim>\<open>content\<close>, \<^verbatim>\<open>isFake\<close>, \<^verbatim>\<open>confidence\<close>, \<^verbatim>\<open>features\<close>,
  \<^verbatim>\<open>explanation\<close>): none of them is a built-in property of a primitive or an array,
  so only an object can hold one.
\<close>

fun getprop :: "jsval \<Rightarrow> string \<Rightarrow> jsval" where
  "getprop (JObj fs) k = (case map_of fs k of Some v \<Rightarrow> v | None \<Rightarrow> JUndefined)"
| "getprop _ k = JUndefined"

fun num_lt :: "number \<Rightarrow> rat \<Rightarrow> bool" where
  "num_lt (Finite x) y = (x < y)"
| "num_lt PosInfinity y = False"
| "num_lt NegInfinity y = True"

fun num_gt :: "number \<Rightarrow> rat \<Rightarrow> bool" where
  "num_gt (Finite x) y = (x > y)"
| "num_gt PosInfinity y = True"
| "num_gt NegInfinity y = False"

text \<open>
  \<^verbatim>\<open>Math.round\<close>: the nearest integer, a tie going towards plus infinity, which is
  \<open>round x = \<lfloor>x + 1 / 2\<rfloor>\<close>.
\<close>

fun Math_round :: "number \<Rightarrow> number" where
  "Math_round (Finite x) = Finite (of_int (round x))"
| "Math_round PosInfinity = PosInfinity"
| "Math_round NegInfinity = NegInfinity"

section \<open>Strings\<close>

text \<open>
  \<^verbatim>\<open>String.prototype.trim\<close> removes white space and line terminators from both ends:
  among the code units below 256 these are TAB, LF, VT, FF, CR, SP and NBSP.
\<close>

definition isWhiteSpace :: "char \<Rightarrow> bool" where
  "isWhiteSpace c =
     (c \<in> set [CHR 0x09, CHR 0x0A, CHR 0x0B, CHR 0x0C, CHR 0x0D, CHR 0x20, CHR 0xA0])"

definition trim :: "string \<Rightarrow> string" where
  "trim s = rev (dropWhile isWhiteSpace (rev (dropWhile isWhiteSpace s)))"

definition startsWith :: "string \<Rightarrow> string \<Rightarrow> bool" where
  "startsWith s p = (take (length p) s = p)"

fun join_lines :: "string list \<Rightarrow> string" where
  "join_lines [] = []"
| "join_lines [l] = l"
| "join_lines (l # ls) = l @ CHR 0x0A # join_lines ls"

section \<open>The extractor: \<^verbatim>\<open>rawText.match(/{[\s\S]*}/)\<close>\<close>

text \<open>
  The regular expression is a literal \<^verbatim>\<open>{\<close>, a greedy star over any character, and
  a literal \<^verbatim>\<open>}\<close>. \<open>greedy_to_close\<close> is the backtracking matcher of
  \<^verbatim>\<open>[\s\S]*}\<close> anchored at the head of its input: the star first tries to consume
  one more character, and only when the rest cannot match is the closing brace
  looked for here. \<open>match_here\<close> anchors the whole pattern at the head, and
  \<open>jsonMatch\<close> is the search, which returns the match at the leftmost position
  that has one (\<^verbatim>\<open>jsonMatch[0]\<close>), or \<open>None\<close> for \<^verbatim>\<open>null\<close>.
\<close>

fun greedy_to_close :: "string \<Rightarrow> string option" where
  "greedy_to_close [] = None"
| "greedy_to_close (c # cs) =
     (case greedy_to_close cs of
        Some m \<Rightarrow> Some (c # m)
      | None \<Rightarrow> if c = CHR ''}'' then Some [c] else None)"

fun match_here :: "string \<Rightarrow> string option" where
  "match_here [] = None"
| "match_here (c # cs) =
     (if c = CHR ''{'' then map_option ((#) c) (greedy_to_close cs) else None)"

fun jsonMatch :: "string \<Rightarrow> string option" where
  "jsonMatch [] = None"
| "jsonMatch (c # cs) =
     (case match_here (c # cs) of
        Some m \<Rightarrow> Some m
      | None \<Rightarrow> jsonMatch cs)"

text \<open>
  The extraction as the specification words it: the span from the first \<^verbatim>\<open>{\<close>
  through the last \<^verbatim>\<open>}\<close>, when the one stands before the other.
  \<open>first_index\<close> and \<open>last_index\<close> are \<^verbatim>\<open>indexOf\<close> and \<^verbatim>\<open>lastIndexOf\<close>.
\<close>

definition first_index :: "char \<Rightarrow> string \<Rightarrow> nat option" where
  "first_index c s =
     (if c \<in> set s then Some (length (takeWhile (\<lambda>x. x \<noteq> c) s)) else None)"

definition last_index :: "char \<Rightarrow> string \<Rightarrow> nat option" where
  "last_index c s =
     (if c \<in> set s then Some (length s - Suc (length (takeWhile (\<lambda>x. x \<noteq> c) (rev s))))
      else None)"

definition brace_span :: "string \<Rightarrow> string option" where
  "brace_span t =
     (case first_index (CHR ''{'') t of
        None \<Rightarrow> None
      | Some i \<Rightarrow>
          (case last_index (CHR ''}'') t of
             None \<Rightarrow> None
           | Some j \<Rightarrow> if i < j then Some (take (Suc j - i) (drop i t)) else None))"

section \<open>The analysis service: \<^verbatim>\<open>analyzeText\<close>\<close>

text \<open>The prompt: the template literal of \<^verbatim>\<open>analyzeText\<close>, line by line.\<close>

definition prompt :: "string \<Rightarrow> string \<Rightarrow> string" where
  "prompt title content = join_lines
     [''You are a fact-checking expert. Analyze this news article for authenticity.'',
      '''',
      ''        Title: '' @ title,
      ''        Content: '' @ content,
      '''',
      ''        Analyze for:'',
      ''        1. Factual accuracy'',
      ''        2. Source credibility'',
      ''        3. Language patterns'',
      ''        4. Logical consistency'',
      ''        5. Emotional manipulation'',
      ''        6. Citation verification'',
      '''',
      ''        Return EXACTLY this JSON format (no other text):'',
      ''        {'',
      ''            \"isFake\": false,'',
      ''            \"confidence\": 85,'',
      ''            \"features\": [\"finding 1\", \"finding 2\"],'',
      ''            \"explanation\": \"detailed explanation\"'',
      ''        }'',
      '''',
      ''        Guidelines:'',
      ''        - isFake must be true/false based on clear evidence'',
      ''        - confidence must be 0-100 based on evidence strength'',
      ''        - features must list specific findings'',
      ''        - explanation must provide clear reasoning'']"

text \<open>
  What \<^verbatim>\<open>await model.generateContent(prompt)\<close> and the reading of its text can do:
  the call rejects; it resolves to a falsy result or one without a \<^verbatim>\<open>response\<close>;
  \<^verbatim>\<open>result.response.text()\<close> throws; or the text is returned. The model is a
  parameter of the service: a function from the prompt to one of these.
\<close>

datatype generated =
    Rejects exn
  | NoResponse
  | TextThrows exn
  | Text string

text \<open>
  What the server does to the outside world, in order: calls of the model and lines
  written to the console. \<open>ConsoleErrorOf l e\<close> is \<^verbatim>\<open>console.error(l, e)\<close> or
  \<^verbatim>\<open>console.error(l, e.message)\<close> for a caught exception \<open>e\<close>.
\<close>

datatype event =
    ModelCall string
  | ConsoleLog string string
  | ConsoleError string string
  | ConsoleErrorOf string exn

record analysis =
  isFake :: bool
  confidence :: number
  features :: "string list"
  explanation :: string

text \<open>
  \<^verbatim>\<open>analysis.features.map(f => f.trim())\<close>: an element that is not a string has no
  \<^verbatim>\<open>trim\<close> method (or is nullish), and the call throws a TypeError.
\<close>

fun trim_each :: "jsval list \<Rightarrow> exn + string list" where
  "trim_each [] = Inr []"
| "trim_each (JStr s # fs) =
     (case trim_each fs of Inl e \<Rightarrow> Inl e | Inr ts \<Rightarrow> Inr (trim s # ts))"
| "trim_each (_ # fs) = Inl TypeError"

text \<open>
  The validation and normalisation of the parsed reply (lines 124 to 145): each
  \<^verbatim>\<open>typeof\<close> test is a case distinction on the value, in the order of the source.
  Reading a property of a nullish \<^verbatim>\<open>analysis\<close> throws a TypeError.
\<close>

definition validate :: "jsval \<Rightarrow> exn + analysis" where
  "validate a =
     (if nullish a then Inl TypeError
      else case getprop a ''isFake'' of
        JBool b \<Rightarrow>
          (case getprop a ''confidence'' of
             JNum c \<Rightarrow>
               if num_lt c 0 \<or> num_gt c 100 then Inl (Error ''Invalid confidence score'')
               else
                 (case getprop a ''features'' of
                    JArr fs \<Rightarrow>
                      if length fs = 0 then Inl (Error ''No analysis features found'')
                      else
                        (case getprop a ''explanation'' of
                           JStr e \<Rightarrow>
                             if trim e = [] then Inl (Error ''No explanation provided'')
                             else
                               (case trim_each fs of
                                  Inl x \<Rightarrow> Inl x
                                | Inr ts \<Rightarrow>
                                    Inr \<lparr>isFake = b,
                                         confidence = Math_round c,
                                         features = filter (\<lambda>f. f \<noteq> []) ts,
                                         explanation = trim e\<rparr>)
                         | _ \<Rightarrow> Inl (Error ''No explanation provided''))
                  | _ \<Rightarrow> Inl (Error ''No analysis features found''))
           | _ \<Rightarrow> Inl (Error ''Invalid confidence score''))
      | _ \<Rightarrow> Inl (Error ''Invalid analysis result''))"

text \<open>
  The body of the \<^verbatim>\<open>try\<close> block of \<^verbatim>\<open>analyzeText\<close>: the value returned or the
  exception thrown, with the events up to there. \<^verbatim>\<open>JSON.parse\<close> is a parameter.
\<close>

definition analyzeText_try ::
  "(string \<Rightarrow> generated) \<Rightarrow> (string \<Rightarrow> exn + jsval) \<Rightarrow> string \<Rightarrow> string
     \<Rightarrow> (exn + analysis) \<times> event list" where
  "analyzeText_try generateContent JSON_parse title content =
     (let p = prompt title content in
      case generateContent p of
        Rejects e \<Rightarrow> (Inl e, [ModelCall p])
      | NoResponse \<Rightarrow> (Inl (Error ''No response received from AI service''), [ModelCall p])
      | TextThrows e \<Rightarrow> (Inl e, [ModelCall p])
      | Text txt \<Rightarrow>
          (let rawText = trim txt;
               seen = [ModelCall p, ConsoleLog ''Raw AI response:'' rawText]
           in case jsonMatch rawText of
                None \<Rightarrow>
                  (Inl (Error ''Could not parse AI response''),
                   seen @ [ConsoleError ''Invalid response format:'' rawText])
              | Some m \<Rightarrow>
                  (case JSON_parse m of
                     Inl e \<Rightarrow> (Inl e, seen)
                   | Inr a \<Rightarrow> (validate a, seen))))"

text \<open>The result that the \<^verbatim>\<open>catch\<close> block of \<^verbatim>\<open>analyzeText\<close> returns.\<close>

definition degraded :: analysis where
  "degraded =
     \<lparr>isFake = False,
      confidence = Finite 0,
      features = [''Error: Content analysis failed''],
      explanation = ''The analysis service is currently experiencing issues. Please wait a moment and try again.''\<rparr>"

definition analyzeText ::
  "(string \<Rightarrow> generated) \<Rightarrow> (string \<Rightarrow> exn + jsval) \<Rightarrow> string \<Rightarrow> string
     \<Rightarrow> analysis \<times> event list" where
  "analyzeText generateContent JSON_parse title content =
     (case analyzeText_try generateContent JSON_parse title content of
        (Inr a, evs) \<Rightarrow> (a, evs)
      | (Inl e, evs) \<Rightarrow> (degraded, evs @ [ConsoleErrorOf ''Analysis error:'' e]))"

section \<open>The record store\<close>

text \<open>
  A stored document has the fields of the schema, its \<^verbatim>\<open>_id\<close> (\<open>oid\<close>, the ObjectId
  written as 24 lower-case hexadecimal digits) and \<^verbatim>\<open>createdAt\<close> in milliseconds.
  The collection is the list of its documents. An operation of the store is
  awaited: it rejects when the driver reports a fault (no connection, a time-out),
  which is the parameter \<open>fault\<close>, and otherwise does what MongoDB documents for it.
\<close>

record news = analysis +
  oid :: string
  title :: string
  content :: string
  createdAt :: int

type_synonym store = "news list"

text \<open>\<^verbatim>\<open>newsEntry.save()\<close>\<close>

definition save :: "exn option \<Rightarrow> news \<Rightarrow> store \<Rightarrow> unit outcome \<times> store" where
  "save fault d db =
     (case fault of
        Some e \<Rightarrow> (Rejected e, db)
      | None \<Rightarrow> (Resolved (), db @ [d]))"

text \<open>\<^verbatim>\<open>News.find().sort({ createdAt: -1 }).limit(10)\<close>\<close>

definition find_recent :: "exn option \<Rightarrow> store \<Rightarrow> news list outcome" where
  "find_recent fault db =
     (case fault of
        Some e \<Rightarrow> Rejected e
      | None \<Rightarrow> Resolved (take 10 (sort_key (\<lambda>d. - createdAt d) db)))"

text \<open>
  \<^verbatim>\<open>News.findByIdAndDelete(id)\<close>. Mongoose first casts the identifier of the path, a
  string, to an ObjectId, and rejects with a CastError when it cannot, before the
  store is asked. Which strings can be cast is the driver's rule and a parameter
  here, \<open>castObjectId\<close>: it gives the ObjectId of a string, or \<open>None\<close>. With an
  ObjectId, the first document with that \<^verbatim>\<open>_id\<close> is removed and returned, \<^verbatim>\<open>null\<close>
  when there is none.
\<close>

fun remove_oid :: "string \<Rightarrow> store \<Rightarrow> store" where
  "remove_oid k [] = []"
| "remove_oid k (d # ds) = (if oid d = k then ds else d # remove_oid k ds)"

definition findByIdAndDelete ::
  "(string \<Rightarrow> string option) \<Rightarrow> exn option \<Rightarrow> string \<Rightarrow> store
     \<Rightarrow> news option outcome \<times> store" where
  "findByIdAndDelete castObjectId fault i db =
     (case castObjectId i of
        None \<Rightarrow> (Rejected CastError, db)
      | Some k \<Rightarrow>
          (case fault of
             Some e \<Rightarrow> (Rejected e, db)
           | None \<Rightarrow>
               (case find (\<lambda>d. oid d = k) db of
                  None \<Rightarrow> (Resolved None, db)
                | Some d \<Rightarrow> (Resolved (Some d), remove_oid k db))))"

text \<open>
  The rule of the ObjectId constructor for a string that all versions of the driver
  share: a string of 24 hexadecimal digits is the ObjectId with those digits,
  whatever their case. (A string of another length than 12 or 24, or one of 24
  characters with another character in it, is rejected by every version; older
  versions also take a string of 12 characters as the twelve bytes, which this rule
  leaves out.)
\<close>

definition isHexDigit :: "char \<Rightarrow> bool" where
  "isHexDigit c = (c \<in> set ''0123456789abcdefABCDEF'')"

definition lowerHex :: "char \<Rightarrow> char" where
  "lowerHex c =
     (if c = CHR ''A'' then CHR ''a'' else if c = CHR ''B'' then CHR ''b''
      else if c = CHR ''C'' then CHR ''c'' else if c = CHR ''D'' then CHR ''d''
      else if c = CHR ''E'' then CHR ''e'' else if c = CHR ''F'' then CHR ''f''
      else c)"

definition hexObjectId :: "string \<Rightarrow> string option" where
  "hexObjectId s =
     (if length s = 24 \<and> list_all isHexDigit s then Some (map lowerHex s) else None)"

section \<open>The HTTP surface\<close>

datatype body =
    ErrorBody string
  | ErrorDetails string exn
  | AnalysisBody analysis
  | HistoryBody "news list"
  | SuccessBody string

record response =
  status :: nat
  body :: body

text \<open>
  \<^verbatim>\<open>!x?.trim()\<close> for a field of the request body: \<open>Inr None\<close> when the test holds
  (the field is nullish, or a string that is empty after trimming), \<open>Inr (Some s)\<close>
  with the string itself when it does not, and a TypeError for any other value,
  which has no \<^verbatim>\<open>trim\<close> method.
\<close>

fun required :: "jsval \<Rightarrow> exn + string option" where
  "required JUndefined = Inr None"
| "required JNull = Inr None"
| "required (JStr s) = (if trim s = [] then Inr None else Inr (Some s))"
| "required _ = Inl TypeError"

text \<open>\<^verbatim>\<open>analysis.features?.[0]?.startsWith('Error:')\<close>\<close>

definition analysis_failed :: "analysis \<Rightarrow> bool" where
  "analysis_failed a =
     (case features a of
        [] \<Rightarrow> False
      | f # _ \<Rightarrow> startsWith f ''Error:'')"

text \<open>The top-level \<^verbatim>\<open>catch\<close> of the POST handler.\<close>

definition api_error :: "exn \<Rightarrow> store \<Rightarrow> response \<times> store \<times> event list" where
  "api_error e db =
     (\<lparr>status = 500, body = ErrorDetails ''Server error. Please try again later.'' e\<rparr>,
      db, [ConsoleErrorOf ''API error:'' e])"

definition bad_request :: "string \<Rightarrow> store \<Rightarrow> response \<times> store \<times> event list" where
  "bad_request msg db = (\<lparr>status = 400, body = ErrorBody msg\<rparr>, db, [])"

text \<open>
  \<^verbatim>\<open>POST /api/analyze\<close>. \<open>reqbody\<close> is \<^verbatim>\<open>req.body\<close>; \<open>new_oid\<close> and \<open>now\<close> are the
  identifier and the time that a new document gets. Destructuring a nullish body
  throws. The result is the response, the collection afterwards and the events.
\<close>

definition post_analyze ::
  "(string \<Rightarrow> generated) \<Rightarrow> (string \<Rightarrow> exn + jsval) \<Rightarrow> exn option \<Rightarrow> string \<Rightarrow> int
     \<Rightarrow> jsval \<Rightarrow> store \<Rightarrow> response \<times> store \<times> event list" where
  "post_analyze generateContent JSON_parse fault new_oid now reqbody db =
     (if nullish reqbody then api_error TypeError db
      else case required (getprop reqbody ''title'') of
        Inl e \<Rightarrow> api_error e db
      | Inr None \<Rightarrow>
          bad_request ''Both title and content are required and cannot be empty'' db
      | Inr (Some t) \<Rightarrow>
          (case required (getprop reqbody ''content'') of
             Inl e \<Rightarrow> api_error e db
           | Inr None \<Rightarrow>
               bad_request ''Both title and content are required and cannot be empty'' db
           | Inr (Some c) \<Rightarrow>
               if length c < 50 then
                 bad_request
                   ''Content is too short. Please provide more text for accurate analysis.'' db
               else
                 (case analyzeText generateContent JSON_parse t c of
                    (a, evs) \<Rightarrow>
                      if analysis_failed a then
                        (\<lparr>status = 500,
                          body = ErrorBody
                            (if explanation a = [] then ''Analysis failed. Please try again.''
                             else explanation a)\<rparr>,
                         db, evs)
                      else
                        (case save fault
                                (analysis.extend a
                                   \<lparr>oid = new_oid, title = t, content = c, createdAt = now\<rparr>)
                                db of
                           (Rejected e, db') \<Rightarrow>
                             (\<lparr>status = 200, body = AnalysisBody a\<rparr>, db',
                              evs @ [ConsoleErrorOf ''Database error:'' e])
                         | (Resolved u, db') \<Rightarrow>
                             (\<lparr>status = 200, body = AnalysisBody a\<rparr>, db', evs)))))"

text \<open>\<^verbatim>\<open>GET /api/history\<close>\<close>

definition get_history :: "exn option \<Rightarrow> store \<Rightarrow> response" where
  "get_history fault db =
     (case find_recent fault db of
        Resolved history \<Rightarrow> \<lparr>status = 200, body = HistoryBody history\<rparr>
      | Rejected e \<Rightarrow> \<lparr>status = 200, body = HistoryBody []\<rparr>)"

text \<open>\<^verbatim>\<open>DELETE /api/history/:id\<close>\<close>

definition delete_history ::
  "(string \<Rightarrow> string option) \<Rightarrow> exn option \<Rightarrow> string \<Rightarrow> store
     \<Rightarrow> response \<times> store \<times> event list" where
  "delete_history castObjectId fault i db =
     (case findByIdAndDelete castObjectId fault i db of
        (Rejected e, db') \<Rightarrow>
          (\<lparr>status = 500, body = ErrorDetails ''Failed to delete item'' e\<rparr>, db',
           [ConsoleErrorOf ''Delete error:'' e])
      | (Resolved None, db') \<Rightarrow>
          (\<lparr>status = 404, body = ErrorBody ''Item not found''\<rparr>, db', [])
      | (Resolved (Some d), db') \<Rightarrow>
          (\<lparr>status = 200, body = SuccessBody ''Item deleted successfully''\<rparr>, db', []))"

section \<open>Vocabulary of the statements\<close>

text \<open>
  The conditions that the statements below put on a value. The first four are the
  four tests of \<open>validate\<close> read positively: a boolean; a number from 0 to 100; an
  array with an element; a string with a character left after trimming.
\<close>

fun is_boolean :: "jsval \<Rightarrow> bool" where
  "is_boolean (JBool b) = True"
| "is_boolean _ = False"

fun confidence_ok :: "jsval \<Rightarrow> bool" where
  "confidence_ok (JNum (Finite x)) = (0 \<le> x \<and> x \<le> 100)"
| "confidence_ok _ = False"

fun nonempty_list :: "jsval \<Rightarrow> bool" where
  "nonempty_list (JArr fs) = (fs \<noteq> [])"
| "nonempty_list _ = False"

fun nonblank_string :: "jsval \<Rightarrow> bool" where
  "nonblank_string (JStr s) = (trim s \<noteq> [])"
| "nonblank_string _ = False"

text \<open>
  A field of the request body is \<open>textual\<close> when it is absent, \<^verbatim>\<open>null\<close> or a
  string, and \<open>blank\<close> when it is absent, \<^verbatim>\<open>null\<close> or a string that is empty after
  trimming.
\<close>

fun textual :: "jsval \<Rightarrow> bool" where
  "textual JUndefined = True"
| "textual JNull = True"
| "textual (JStr s) = True"
| "textual _ = False"

fun blank :: "jsval \<Rightarrow> bool" where
  "blank JUndefined = True"
| "blank JNull = True"
| "blank (JStr s) = (trim s = [])"
| "blank _ = False"

text \<open>
  A request body that passes the checks of the POST handler: its title is the string
  \<open>t\<close> and its content the string \<open>c\<close>, neither is empty after trimming, and the
  content has at least 50 characters.
\<close>

definition valid_request :: "jsval \<Rightarrow> string \<Rightarrow> string \<Rightarrow> bool" where
  "valid_request reqbody t c =
     (\<not> nullish reqbody \<and>
      getprop reqbody ''title'' = JStr t \<and> trim t \<noteq> [] \<and>
      getprop reqbody ''content'' = JStr c \<and> trim c \<noteq> [] \<and> 50 \<le> length c)"

section \<open>The extractor selects the first brace through the last\<close>

lemma takeWhile_until:
  "c \<notin> set xs \<Longrightarrow> takeWhile (\<lambda>x. x \<noteq> c) (xs @ c # ys) = xs"
  by (induction xs) auto

lemma first_index_split:
  "c \<notin> set pre \<Longrightarrow> first_index c (pre @ c # suf) = Some (length pre)"
  by (simp add: first_index_def takeWhile_until)

lemma last_index_split:
  "c \<notin> set suf \<Longrightarrow> last_index c (pre @ c # suf) = Some (length pre)"
  using takeWhile_until [of c "rev suf" "rev pre"] by (simp add: last_index_def)

lemma first_index_None: "c \<notin> set s \<Longrightarrow> first_index c s = None"
  by (simp add: first_index_def)

lemma last_index_None: "c \<notin> set s \<Longrightarrow> last_index c s = None"
  by (simp add: last_index_def)

lemma greedy_None: "greedy_to_close cs = None \<longleftrightarrow> CHR ''}'' \<notin> set cs"
  by (induction cs) (auto split: option.splits)

lemma greedy_NoneI: "CHR ''}'' \<notin> set cs \<Longrightarrow> greedy_to_close cs = None"
  by (simp add: greedy_None)

lemma greedy_split:
  "CHR ''}'' \<notin> set suf \<Longrightarrow> greedy_to_close (mid @ CHR ''}'' # suf) = Some (mid @ [CHR ''}''])"
  by (induction mid) (simp_all add: greedy_NoneI)

lemma jsonMatch_no_close: "CHR ''}'' \<notin> set cs \<Longrightarrow> jsonMatch cs = None"
proof (induction cs)
  case Nil
  then show ?case by simp
next
  case (Cons c cs)
  then have "greedy_to_close cs = None" by (simp add: greedy_None)
  with Cons show ?case by simp
qed

lemma jsonMatch_split:
  "CHR ''{'' \<notin> set pre \<Longrightarrow>
   jsonMatch (pre @ CHR ''{'' # cs) = map_option ((#) (CHR ''{'')) (greedy_to_close cs)"
proof (induction pre)
  case Nil
  show ?case
  proof (cases "greedy_to_close cs")
    case None
    then have "jsonMatch cs = None" by (simp add: greedy_None jsonMatch_no_close)
    with None show ?thesis by simp
  next
    case (Some m)
    then show ?thesis by simp
  qed
next
  case (Cons a pre)
  then show ?case by auto
qed

lemma jsonMatch_brace_span: "jsonMatch t = brace_span t"
proof (cases "CHR ''{'' \<in> set t")
  case False
  have "jsonMatch t = None" using False by (induction t) auto
  with False show ?thesis by (simp add: brace_span_def first_index_None)
next
  case True
  then obtain pre cs where t: "t = pre @ CHR ''{'' # cs" and pre: "CHR ''{'' \<notin> set pre"
    by (auto dest: split_list_first)
  have i: "first_index (CHR ''{'') t = Some (length pre)"
    unfolding t using pre by (rule first_index_split)
  show ?thesis
  proof (cases "CHR ''}'' \<in> set cs")
    case True
    then obtain mid suf where cs: "cs = mid @ CHR ''}'' # suf" and suf: "CHR ''}'' \<notin> set suf"
      by (auto dest: split_list_last)
    have "t = (pre @ CHR ''{'' # mid) @ CHR ''}'' # suf" by (simp add: t cs)
    then have j: "last_index (CHR ''}'') t = Some (length (pre @ CHR ''{'' # mid))"
      using suf last_index_split by metis
    have "jsonMatch t = Some (CHR ''{'' # mid @ [CHR ''}''])"
      unfolding t using pre by (simp add: jsonMatch_split cs greedy_split suf)
    moreover have "brace_span t = Some (CHR ''{'' # mid @ [CHR ''}''])"
      unfolding brace_span_def i j by (simp add: t cs)
    ultimately show ?thesis by simp
  next
    case False
    then have m: "jsonMatch t = None"
      unfolding t using pre by (simp add: jsonMatch_split greedy_None)
    show ?thesis
    proof (cases "CHR ''}'' \<in> set pre")
      case True
      then obtain p1 p2 where p: "pre = p1 @ CHR ''}'' # p2" and p2: "CHR ''}'' \<notin> set p2"
        by (auto dest: split_list_last)
      have "t = p1 @ CHR ''}'' # (p2 @ CHR ''{'' # cs)" by (simp add: t p)
      moreover have "CHR ''}'' \<notin> set (p2 @ CHR ''{'' # cs)" using p2 False by simp
      ultimately have j: "last_index (CHR ''}'') t = Some (length p1)"
        using last_index_split by metis
      show ?thesis unfolding m brace_span_def i j by (simp add: p)
    next
      case False
      with \<open>CHR ''}'' \<notin> set cs\<close> have "CHR ''}'' \<notin> set t" by (simp add: t)
      then show ?thesis unfolding m brace_span_def i by (simp add: last_index_None)
    qed
  qed
qed

lemma jsonMatch_found:
  "jsonMatch (pre @ CHR ''{'' # mid @ CHR ''}'' # suf) \<noteq> None"
proof (induction pre)
  case Nil
  have "greedy_to_close (mid @ CHR ''}'' # suf) \<noteq> None" by (simp add: greedy_None)
  then show ?case by auto
next
  case (Cons a pre)
  then show ?case by (auto split: option.splits)
qed

lemma jsonMatch_Some_shape:
  "jsonMatch t = Some m \<Longrightarrow> \<exists>pre mid suf. t = pre @ CHR ''{'' # mid @ CHR ''}'' # suf"
proof (induction t)
  case Nil
  then show ?case by simp
next
  case (Cons c cs)
  show ?case
  proof (cases "match_here (c # cs)")
    case None
    with Cons.prems have "jsonMatch cs = Some m" by simp
    then obtain pre mid suf where "cs = pre @ CHR ''{'' # mid @ CHR ''}'' # suf"
      using Cons.IH by blast
    then have "c # cs = (c # pre) @ CHR ''{'' # mid @ CHR ''}'' # suf" by simp
    then show ?thesis by blast
  next
    case (Some m')
    then have c: "c = CHR ''{''" and "greedy_to_close cs \<noteq> None"
      by (auto split: if_splits)
    then have "CHR ''}'' \<in> set cs" by (simp add: greedy_None)
    then obtain mid suf where "cs = mid @ CHR ''}'' # suf" by (auto dest: split_list)
    with c have "c # cs = [] @ CHR ''{'' # mid @ CHR ''}'' # suf" by simp
    then show ?thesis by blast
  qed
qed

lemma jsonMatch_None_iff:
  "jsonMatch t = None \<longleftrightarrow> \<not> (\<exists>pre mid suf. t = pre @ CHR ''{'' # mid @ CHR ''}'' # suf)"
proof (cases "jsonMatch t")
  case None
  then show ?thesis using jsonMatch_found by metis
next
  case (Some m)
  then show ?thesis using jsonMatch_Some_shape by simp
qed

lemma analyzeText_try_Text:
  "generateContent (prompt ttl cont) = Text txt \<Longrightarrow>
   fst (analyzeText_try generateContent JSON_parse ttl cont) =
     (case jsonMatch (trim txt) of
        None \<Rightarrow> Inl (Error ''Could not parse AI response'')
      | Some m \<Rightarrow> (case JSON_parse m of Inl e \<Rightarrow> Inl e | Inr a \<Rightarrow> validate a))"
  by (simp add: analyzeText_try_def Let_def split: option.splits sum.splits)

text \<open>
  Claim C4. For every text \<open>t\<close> (the trimmed reply), the match of the extractor is
  the span from the first \<^verbatim>\<open>{\<close> through the last \<^verbatim>\<open>}\<close> of \<open>t\<close>, and there is
  no match exactly when \<open>t\<close> has no \<^verbatim>\<open>{\<close> with a \<^verbatim>\<open>}\<close> somewhere after it. In
  \<^verbatim>\<open>analyzeText\<close> the missing match is the error
  \<^verbatim>\<open>Could not parse AI response\<close>, and a match is what is handed to \<^verbatim>\<open>JSON.parse\<close>.
\<close>

theorem extractor_first_to_last_brace:
  "jsonMatch t = brace_span t \<and>
   (jsonMatch t = None \<longleftrightarrow>
      \<not> (\<exists>pre mid suf. t = pre @ CHR ''{'' # mid @ CHR ''}'' # suf)) \<and>
   (generateContent (prompt ttl cont) = Text txt \<longrightarrow>
      fst (analyzeText_try generateContent JSON_parse ttl cont) =
        (case brace_span (trim txt) of
           None \<Rightarrow> Inl (Error ''Could not parse AI response'')
         | Some m \<Rightarrow> (case JSON_parse m of Inl e \<Rightarrow> Inl e | Inr a \<Rightarrow> validate a)))"
  using jsonMatch_brace_span [of t] jsonMatch_brace_span [of "trim txt"]
    jsonMatch_None_iff [of t]
    analyzeText_try_Text [of generateContent ttl cont "txt" JSON_parse]
  by simp

theorem extractor_first_to_last_brace_witness:
  "jsonMatch ''Here: {\"a\": {}} and } more'' = Some ''{\"a\": {}} and }'' \<and>
   jsonMatch ''} nothing {'' = None \<and>
   fst (analyzeText_try (\<lambda>p. Text ''  } nothing { '') (\<lambda>s. Inl SyntaxError) ''T'' ''C'') =
     Inl (Error ''Could not parse AI response'')"
  using extractor_first_to_last_brace [of "''Here: {\"a\": {}} and } more''"]
    extractor_first_to_last_brace [of "''} nothing {''" "\<lambda>p. Text ''  } nothing { ''" "''T''" "''C''" "''  } nothing { ''" "\<lambda>s. Inl SyntaxError"]
  by (simp add: brace_span_def first_index_def last_index_def trim_def isWhiteSpace_def)

section \<open>The validator rejects in the order of the source\<close>

lemma validate_not_boolean:
  "\<not> nullish a \<Longrightarrow> \<not> is_boolean (getprop a ''isFake'') \<Longrightarrow>
   validate a = Inl (Error ''Invalid analysis result'')"
  by (cases "getprop a ''isFake''") (simp_all add: validate_def)

lemma confidence_ok_range:
  "confidence_ok v \<Longrightarrow>
   \<exists>x. v = JNum (Finite x) \<and> \<not> num_lt (Finite x) 0 \<and> \<not> num_gt (Finite x) 100"
  by (induction v rule: confidence_ok.induct) auto

lemma validate_bad_confidence:
  "\<not> nullish a \<Longrightarrow> is_boolean (getprop a ''isFake'') \<Longrightarrow>
   \<not> confidence_ok (getprop a ''confidence'') \<Longrightarrow>
   validate a = Inl (Error ''Invalid confidence score'')"
  apply (cases "getprop a ''isFake''"; simp add: validate_def)
  apply (cases "getprop a ''confidence''"; simp)
  subgoal for b n by (cases n) auto
  done

lemma validate_bad_features:
  "\<not> nullish a \<Longrightarrow> is_boolean (getprop a ''isFake'') \<Longrightarrow>
   confidence_ok (getprop a ''confidence'') \<Longrightarrow>
   \<not> nonempty_list (getprop a ''features'') \<Longrightarrow>
   validate a = Inl (Error ''No analysis features found'')"
  apply (cases "getprop a ''isFake''"; simp add: validate_def)
  apply (drule confidence_ok_range)
  apply (cases "getprop a ''features''"; auto)
  done

lemma validate_bad_explanation:
  "\<not> nullish a \<Longrightarrow> is_boolean (getprop a ''isFake'') \<Longrightarrow>
   confidence_ok (getprop a ''confidence'') \<Longrightarrow>
   nonempty_list (getprop a ''features'') \<Longrightarrow>
   \<not> nonblank_string (getprop a ''explanation'') \<Longrightarrow>
   validate a = Inl (Error ''No explanation provided'')"
  apply (cases "getprop a ''isFake''"; simp add: validate_def)
  apply (drule confidence_ok_range)
  apply (cases "getprop a ''features''"; simp)
  apply (cases "getprop a ''explanation''"; auto)
  done

lemma analyzeText_failure:
  "fst (analyzeText_try g p t c) = Inl e \<Longrightarrow> fst (analyzeText g p t c) = degraded"
  by (cases "analyzeText_try g p t c") (simp add: analyzeText_def)

lemma analyzeText_genuine:
  "generateContent (prompt t c) = Text raw \<Longrightarrow> jsonMatch (trim raw) = Some m \<Longrightarrow>
   JSON_parse m = Inr a \<Longrightarrow> validate a = Inr r \<Longrightarrow>
   fst (analyzeText generateContent JSON_parse t c) = r"
  by (simp add: analyzeText_def analyzeText_try_def)

text \<open>
  Claim C3. The validator tests the parsed reply field by field, in the order
  isFake, confidence, features, explanation, and stops at the first test that
  fails: a reply whose isFake is not a boolean is rejected whatever its other
  fields are; one with a boolean isFake whose confidence is not a number from 0 to
  100 is rejected for its confidence; then features that is not an array with an
  element; then an explanation that is not a string or is empty after trimming.
  Each rejection is an error value of the validator, and \<^verbatim>\<open>analyzeText\<close> answers it
  with the degraded result: nothing is thrown to the request.
\<close>

theorem validate_rejects_in_order:
  assumes "\<not> nullish a"
  shows
    "(\<not> is_boolean (getprop a ''isFake'') \<longrightarrow>
        validate a = Inl (Error ''Invalid analysis result'')) \<and>
     (is_boolean (getprop a ''isFake'') \<and> \<not> confidence_ok (getprop a ''confidence'') \<longrightarrow>
        validate a = Inl (Error ''Invalid confidence score'')) \<and>
     (is_boolean (getprop a ''isFake'') \<and> confidence_ok (getprop a ''confidence'') \<and>
      \<not> nonempty_list (getprop a ''features'') \<longrightarrow>
        validate a = Inl (Error ''No analysis features found'')) \<and>
     (is_boolean (getprop a ''isFake'') \<and> confidence_ok (getprop a ''confidence'') \<and>
      nonempty_list (getprop a ''features'') \<and>
      \<not> nonblank_string (getprop a ''explanation'') \<longrightarrow>
        validate a = Inl (Error ''No explanation provided'')) \<and>
     (generateContent (prompt t c) = Text raw \<and> jsonMatch (trim raw) = Some m \<and>
      JSON_parse m = Inr a \<and> validate a = Inl e \<longrightarrow>
        fst (analyzeText generateContent JSON_parse t c) = degraded)"
proof -
  have caught: "fst (analyzeText generateContent JSON_parse t c) = degraded"
    if "generateContent (prompt t c) = Text raw" "jsonMatch (trim raw) = Some m"
       "JSON_parse m = Inr a" "validate a = Inl e"
  proof -
    from that have "fst (analyzeText_try generateContent JSON_parse t c) = Inl e"
      by (simp add: analyzeText_try_def)
    then show ?thesis by (rule analyzeText_failure)
  qed
  show ?thesis
    using assms validate_not_boolean validate_bad_confidence validate_bad_features
      validate_bad_explanation caught
    by blast
qed

theorem validate_rejects_in_order_witness:
  "validate (JObj [(''isFake'', JStr ''no''), (''confidence'', JNum (Finite 85)),
                   (''features'', JArr [JStr ''finding'']), (''explanation'', JStr ''why'')])
     = Inl (Error ''Invalid analysis result'') \<and>
   validate (JObj [(''isFake'', JBool True), (''confidence'', JNum (Finite (- 1))),
                   (''features'', JArr []), (''explanation'', JStr ''  '')])
     = Inl (Error ''Invalid confidence score'') \<and>
   validate (JObj [(''isFake'', JBool True), (''confidence'', JNum (Finite 101)),
                   (''features'', JArr [JStr ''finding'']), (''explanation'', JStr ''why'')])
     = Inl (Error ''Invalid confidence score'') \<and>
   validate (JObj [(''isFake'', JBool True), (''confidence'', JStr ''85''),
                   (''features'', JArr [JStr ''finding'']), (''explanation'', JStr ''why'')])
     = Inl (Error ''Invalid confidence score'') \<and>
   validate (JObj [(''isFake'', JBool True), (''confidence'', JNum (Finite 85)),
                   (''features'', JArr []), (''explanation'', JStr ''  '')])
     = Inl (Error ''No analysis features found'') \<and>
   validate (JObj [(''isFake'', JBool True), (''confidence'', JNum (Finite 85)),
                   (''features'', JArr [JStr ''finding'']), (''explanation'', JStr ''  '')])
     = Inl (Error ''No explanation provided'') \<and>
   fst (analyzeText (\<lambda>p. Text ''{}'') (\<lambda>s. Inr (JObj [])) ''T'' ''C'') = degraded"
proof -
  have s: "trim ''{}'' = ''{}''" "trim ''  '' = []"
    by (simp_all add: trim_def isWhiteSpace_def)
  note w = validate_rejects_in_order [where generateContent = "\<lambda>p. Text ''{}''"
      and JSON_parse = "\<lambda>s. Inr (JObj [])" and t = "''T''" and c = "''C''"
      and m = "''{}''" and e = "Error ''Invalid analysis result''" and raw = "''{}''"]
  show ?thesis
    using
      w [of "JObj [(''isFake'', JStr ''no''), (''confidence'', JNum (Finite 85)),
                   (''features'', JArr [JStr ''finding'']), (''explanation'', JStr ''why'')]"]
      w [of "JObj [(''isFake'', JBool True), (''confidence'', JNum (Finite (- 1))),
                   (''features'', JArr []), (''explanation'', JStr ''  '')]"]
      w [of "JObj [(''isFake'', JBool True), (''confidence'', JNum (Finite 101)),
                   (''features'', JArr [JStr ''finding'']), (''explanation'', JStr ''why'')]"]
      w [of "JObj [(''isFake'', JBool True), (''confidence'', JStr ''85''),
                   (''features'', JArr [JStr ''finding'']), (''explanation'', JStr ''why'')]"]
      w [of "JObj [(''isFake'', JBool True), (''confidence'', JNum (Finite 85)),
                   (''features'', JArr []), (''explanation'', JStr ''  '')]"]
      w [of "JObj [(''isFake'', JBool True), (''confidence'', JNum (Finite 85)),
                   (''features'', JArr [JStr ''finding'']), (''explanation'', JStr ''  '')]"]
      w [of "JObj []"]
    by (simp add: s)
qed

section \<open>A failed analysis is the degraded result and a generic 500\<close>

lemma degraded_failed: "analysis_failed degraded"
  by (simp add: analysis_failed_def degraded_def startsWith_def)

lemma post_analyze_valid:
  "valid_request reqbody t c \<Longrightarrow>
   post_analyze g p fault new_oid now reqbody db =
     (case analyzeText g p t c of
        (a, evs) \<Rightarrow>
          if analysis_failed a then
            (\<lparr>status = 500,
              body = ErrorBody (if explanation a = [] then ''Analysis failed. Please try again.''
                                else explanation a)\<rparr>, db, evs)
          else
            (\<lparr>status = 200, body = AnalysisBody a\<rparr>,
             snd (save fault
                    (analysis.extend a
                       \<lparr>oid = new_oid, title = t, content = c, createdAt = now\<rparr>) db),
             case fault of
               None \<Rightarrow> evs
             | Some e \<Rightarrow> evs @ [ConsoleErrorOf ''Database error:'' e]))"
  by (auto simp: post_analyze_def valid_request_def save_def split: prod.splits option.splits)

lemma post_analyze_genuine:
  "valid_request reqbody t c \<Longrightarrow>
   \<not> analysis_failed (fst (analyzeText generateContent JSON_parse t c)) \<Longrightarrow>
   fst (post_analyze generateContent JSON_parse fault new_oid now reqbody db) =
     \<lparr>status = 200, body = AnalysisBody (fst (analyzeText generateContent JSON_parse t c))\<rparr>"
  by (cases "analyzeText generateContent JSON_parse t c") (simp add: post_analyze_valid)

lemma example_request_valid:
  "valid_request
     (JObj [(''title'', JStr ''Local Bakery Wins Award''),
            (''content'', JStr ''The bakery on Main Street won the regional award for its bread.'')])
     ''Local Bakery Wins Award''
     ''The bakery on Main Street won the regional award for its bread.''"
  by (simp add: valid_request_def trim_def isWhiteSpace_def)

text \<open>
  Claim C2. Whenever the \<^verbatim>\<open>try\<close> block of \<^verbatim>\<open>analyzeText\<close> fails, at the model call,
  the extraction, the parsing or the validation, \<^verbatim>\<open>analyzeText\<close> returns exactly the
  fixed degraded result, and for a request that passed the input checks the handler
  answers 500 with exactly the generic message as its error, whatever the exception
  was, and stores nothing.
\<close>

theorem failure_gives_sentinel_and_generic_500:
  assumes "fst (analyzeText_try generateContent JSON_parse t c) = Inl e"
  shows
    "fst (analyzeText generateContent JSON_parse t c) =
       \<lparr>isFake = False, confidence = Finite 0,
        features = [''Error: Content analysis failed''],
        explanation = ''The analysis service is currently experiencing issues. Please wait a moment and try again.''\<rparr> \<and>
     (valid_request reqbody t c \<longrightarrow>
        fst (post_analyze generateContent JSON_parse fault new_oid now reqbody db) =
          \<lparr>status = 500,
           body = ErrorBody ''The analysis service is currently experiencing issues. Please wait a moment and try again.''\<rparr> \<and>
        fst (snd (post_analyze generateContent JSON_parse fault new_oid now reqbody db)) = db)"
proof -
  have d: "fst (analyzeText generateContent JSON_parse t c) = degraded"
    using assms by (rule analyzeText_failure)
  have "fst (post_analyze generateContent JSON_parse fault new_oid now reqbody db) =
          \<lparr>status = 500, body = ErrorBody (explanation degraded)\<rparr> \<and>
        fst (snd (post_analyze generateContent JSON_parse fault new_oid now reqbody db)) = db"
    if "valid_request reqbody t c"
    using that d degraded_failed
    by (cases "analyzeText generateContent JSON_parse t c")
       (simp add: post_analyze_valid, simp add: degraded_def)
  with d show ?thesis by (simp add: degraded_def)
qed

theorem failure_gives_sentinel_and_generic_500_witness:
  "fst (analyzeText (\<lambda>p. Rejects (Error ''fetch failed'')) (\<lambda>s. Inl SyntaxError)
          ''Local Bakery Wins Award''
          ''The bakery on Main Street won the regional award for its bread.'') =
     \<lparr>isFake = False, confidence = Finite 0,
      features = [''Error: Content analysis failed''],
      explanation = ''The analysis service is currently experiencing issues. Please wait a moment and try again.''\<rparr> \<and>
   fst (post_analyze (\<lambda>p. Rejects (Error ''fetch failed'')) (\<lambda>s. Inl SyntaxError) None ''65f0c2a4e13b5a0012345678'' 1000
          (JObj [(''title'', JStr ''Local Bakery Wins Award''),
                 (''content'', JStr ''The bakery on Main Street won the regional award for its bread.'')])
          []) =
     \<lparr>status = 500,
      body = ErrorBody ''The analysis service is currently experiencing issues. Please wait a moment and try again.''\<rparr> \<and>
   fst (post_analyze (\<lambda>p. Text ''I cannot answer that.'') (\<lambda>s. Inl SyntaxError) None ''65f0c2a4e13b5a0012345678'' 1000
          (JObj [(''title'', JStr ''Local Bakery Wins Award''),
                 (''content'', JStr ''The bakery on Main Street won the regional award for its bread.'')])
          []) =
     \<lparr>status = 500,
      body = ErrorBody ''The analysis service is currently experiencing issues. Please wait a moment and try again.''\<rparr> \<and>
   fst (post_analyze (\<lambda>p. Text ''{not json}'') (\<lambda>s. Inl SyntaxError) None ''65f0c2a4e13b5a0012345678'' 1000
          (JObj [(''title'', JStr ''Local Bakery Wins Award''),
                 (''content'', JStr ''The bakery on Main Street won the regional award for its bread.'')])
          []) =
     \<lparr>status = 500,
      body = ErrorBody ''The analysis service is currently experiencing issues. Please wait a moment and try again.''\<rparr> \<and>
   fst (post_analyze (\<lambda>p. Text ''{}'') (\<lambda>s. Inr (JObj [])) None ''65f0c2a4e13b5a0012345678'' 1000
          (JObj [(''title'', JStr ''Local Bakery Wins Award''),
                 (''content'', JStr ''The bakery on Main Street won the regional award for its bread.'')])
          []) =
     \<lparr>status = 500,
      body = ErrorBody ''The analysis service is currently experiencing issues. Please wait a moment and try again.''\<rparr>"
proof -
  have at_call:
    "fst (analyzeText_try (\<lambda>p. Rejects (Error ''fetch failed'')) (\<lambda>s. Inl SyntaxError) t c) =
       Inl (Error ''fetch failed'')" for t c
    by (simp add: analyzeText_try_def)
  have at_extraction:
    "fst (analyzeText_try (\<lambda>p. Text ''I cannot answer that.'') (\<lambda>s. Inl SyntaxError) t c) =
       Inl (Error ''Could not parse AI response'')" for t c
    by (simp add: analyzeText_try_def Let_def trim_def isWhiteSpace_def)
  have at_parsing:
    "fst (analyzeText_try (\<lambda>p. Text ''{not json}'') (\<lambda>s. Inl SyntaxError) t c) =
       Inl SyntaxError" for t c
    by (simp add: analyzeText_try_def Let_def trim_def isWhiteSpace_def)
  have at_validation:
    "fst (analyzeText_try (\<lambda>p. Text ''{}'') (\<lambda>s. Inr (JObj [])) t c) =
       Inl (Error ''Invalid analysis result'')" for t c
    by (simp add: analyzeText_try_def Let_def trim_def isWhiteSpace_def validate_def)
  show ?thesis
    using
      failure_gives_sentinel_and_generic_500 [OF at_call, where fault = None and db = "[]"]
      failure_gives_sentinel_and_generic_500 [OF at_extraction, where fault = None and db = "[]"]
      failure_gives_sentinel_and_generic_500 [OF at_parsing, where fault = None and db = "[]"]
      failure_gives_sentinel_and_generic_500 [OF at_validation, where fault = None and db = "[]"]
      example_request_valid
    by blast
qed

section \<open>The input checks of \<^verbatim>\<open>POST /api/analyze\<close>\<close>

text \<open>
  Claim C6, as stated, fails: a request without content whose title is the number 5
  is answered 500, and so is one whose content has 9 characters and whose title is
  the number 5, because \<^verbatim>\<open>title?.trim()\<close> throws before any check is made.
\<close>

theorem bad_request_counterexample:
  "getprop (JObj [(''title'', JNum (Finite 5))]) ''content'' = JUndefined \<and>
   status (fst (post_analyze (\<lambda>p. NoResponse) (\<lambda>s. Inl SyntaxError) None ''65f0c2a4e13b5a0012345678'' 1000
                  (JObj [(''title'', JNum (Finite 5))]) [])) = 500 \<and>
   length ''too short'' < 50 \<and>
   status (fst (post_analyze (\<lambda>p. NoResponse) (\<lambda>s. Inl SyntaxError) None ''65f0c2a4e13b5a0012345678'' 1000
                  (JObj [(''title'', JNum (Finite 5)), (''content'', JStr ''too short'')]) [])) = 500"
  by (simp add: post_analyze_def api_error_def)

text \<open>
  Claim C6, amended. For a request with a body: the answer is 400 with the message
  that both fields are required whenever the title is absent, null or empty after
  trimming, and whenever the title is a string (or absent or null) and the content
  is absent, null or empty after trimming; and it is 400 with the message that the
  content is too short whenever the title is a string that is not empty after
  trimming and the content is a string of fewer than 50 characters. In each case
  the collection is unchanged and nothing has happened: the model was not called.
\<close>

theorem bad_request_before_analysis:
  assumes "\<not> nullish reqbody"
  shows
    "(blank (getprop reqbody ''title'') \<or>
      textual (getprop reqbody ''title'') \<and> blank (getprop reqbody ''content'') \<longrightarrow>
        post_analyze generateContent JSON_parse fault new_oid now reqbody db =
          (\<lparr>status = 400,
            body = ErrorBody ''Both title and content are required and cannot be empty''\<rparr>,
           db, [])) \<and>
     (textual (getprop reqbody ''title'') \<and> \<not> blank (getprop reqbody ''title'') \<and>
      getprop reqbody ''content'' = JStr c \<and> trim c \<noteq> [] \<and> length c < 50 \<longrightarrow>
        post_analyze generateContent JSON_parse fault new_oid now reqbody db =
          (\<lparr>status = 400,
            body = ErrorBody ''Content is too short. Please provide more text for accurate analysis.''\<rparr>,
           db, []))"
proof -
  have b: "required v = Inr None" if "blank v" for v
    using that by (cases v) simp_all
  have k: "blank v \<or> (\<exists>s. v = JStr s \<and> trim s \<noteq> [])" if "textual v" for v
    using that by (cases v) simp_all
  have first: "post_analyze generateContent JSON_parse fault new_oid now reqbody db =
      bad_request ''Both title and content are required and cannot be empty'' db"
    if "blank (getprop reqbody ''title'')"
    using that assms by (simp add: post_analyze_def b)
  have second: "post_analyze generateContent JSON_parse fault new_oid now reqbody db =
      bad_request ''Both title and content are required and cannot be empty'' db"
    if "textual (getprop reqbody ''title'')" "blank (getprop reqbody ''content'')"
    using k [OF that(1)] that(2) assms by (auto simp: post_analyze_def b)
  have third: "post_analyze generateContent JSON_parse fault new_oid now reqbody db =
      bad_request ''Content is too short. Please provide more text for accurate analysis.'' db"
    if "textual (getprop reqbody ''title'')" "\<not> blank (getprop reqbody ''title'')"
       "getprop reqbody ''content'' = JStr c" "trim c \<noteq> []" "length c < 50"
    using k [OF that(1)] that assms by (auto simp: post_analyze_def)
  show ?thesis
    using first second third by (auto simp: bad_request_def)
qed

theorem bad_request_before_analysis_witness:
  "post_analyze (\<lambda>p. NoResponse) (\<lambda>s. Inl SyntaxError) None ''65f0c2a4e13b5a0012345678'' 1000
     (JObj [(''content'', JStr ''text'')]) [] =
     (\<lparr>status = 400,
       body = ErrorBody ''Both title and content are required and cannot be empty''\<rparr>, [], []) \<and>
   post_analyze (\<lambda>p. NoResponse) (\<lambda>s. Inl SyntaxError) None ''65f0c2a4e13b5a0012345678'' 1000
     (JObj [(''title'', JStr ''Title''), (''content'', JStr ''   '')]) [] =
     (\<lparr>status = 400,
       body = ErrorBody ''Both title and content are required and cannot be empty''\<rparr>, [], []) \<and>
   post_analyze (\<lambda>p. NoResponse) (\<lambda>s. Inl SyntaxError) None ''65f0c2a4e13b5a0012345678'' 1000
     (JObj [(''title'', JStr ''Title''), (''content'', JStr ''too short'')]) [] =
     (\<lparr>status = 400,
       body = ErrorBody ''Content is too short. Please provide more text for accurate analysis.''\<rparr>,
      [], [])"
  using
    bad_request_before_analysis
      [of "JObj [(''content'', JStr ''text'')]"
          "\<lambda>p. NoResponse" "\<lambda>s. Inl SyntaxError" None "''65f0c2a4e13b5a0012345678''" 1000 "[]" "''''"]
    bad_request_before_analysis
      [of "JObj [(''title'', JStr ''Title''), (''content'', JStr ''   '')]"
          "\<lambda>p. NoResponse" "\<lambda>s. Inl SyntaxError" None "''65f0c2a4e13b5a0012345678''" 1000 "[]" "''''"]
    bad_request_before_analysis
      [of "JObj [(''title'', JStr ''Title''), (''content'', JStr ''too short'')]"
          "\<lambda>p. NoResponse" "\<lambda>s. Inl SyntaxError" None "''65f0c2a4e13b5a0012345678''" 1000 "[]" "''too short''"]
  by (simp add: trim_def isWhiteSpace_def)

text \<open>
  Claim C10. There are requests with a field that is present and not a string which
  are answered 500 with the generic server error and the exception as its details,
  not 400: every request with a body whose title is neither absent, null nor a
  string, and every request whose title is a string that is not empty after
  trimming and whose content is neither absent, null nor a string. The TypeError of
  the \<^verbatim>\<open>trim\<close> call is caught by the top-level \<^verbatim>\<open>catch\<close> of the handler.
\<close>

theorem non_string_field_gives_500:
  assumes "\<not> nullish reqbody"
  shows
    "(\<not> textual (getprop reqbody ''title'') \<longrightarrow>
        post_analyze generateContent JSON_parse fault new_oid now reqbody db =
          (\<lparr>status = 500,
            body = ErrorDetails ''Server error. Please try again later.'' TypeError\<rparr>,
           db, [ConsoleErrorOf ''API error:'' TypeError])) \<and>
     (getprop reqbody ''title'' = JStr t \<and> trim t \<noteq> [] \<and>
      \<not> textual (getprop reqbody ''content'') \<longrightarrow>
        post_analyze generateContent JSON_parse fault new_oid now reqbody db =
          (\<lparr>status = 500,
            body = ErrorDetails ''Server error. Please try again later.'' TypeError\<rparr>,
           db, [ConsoleErrorOf ''API error:'' TypeError]))"
proof -
  have r: "required v = Inl TypeError" if "\<not> textual v" for v
    using that by (cases v) simp_all
  show ?thesis
    using assms by (auto simp: post_analyze_def api_error_def r)
qed

theorem non_string_field_gives_500_witness:
  "post_analyze (\<lambda>p. NoResponse) (\<lambda>s. Inl SyntaxError) None ''65f0c2a4e13b5a0012345678'' 1000
     (JObj [(''title'', JNum (Finite 5)), (''content'', JStr ''text'')]) [] =
     (\<lparr>status = 500, body = ErrorDetails ''Server error. Please try again later.'' TypeError\<rparr>,
      [], [ConsoleErrorOf ''API error:'' TypeError]) \<and>
   post_analyze (\<lambda>p. NoResponse) (\<lambda>s. Inl SyntaxError) None ''65f0c2a4e13b5a0012345678'' 1000
     (JObj [(''title'', JStr ''Title''), (''content'', JArr [JStr ''text''])]) [] =
     (\<lparr>status = 500, body = ErrorDetails ''Server error. Please try again later.'' TypeError\<rparr>,
      [], [ConsoleErrorOf ''API error:'' TypeError])"
  using
    non_string_field_gives_500
      [of "JObj [(''title'', JNum (Finite 5)), (''content'', JStr ''text'')]"
          "\<lambda>p. NoResponse" "\<lambda>s. Inl SyntaxError" None "''65f0c2a4e13b5a0012345678''" 1000 "[]" "''''"]
    non_string_field_gives_500
      [of "JObj [(''title'', JStr ''Title''), (''content'', JArr [JStr ''text''])]"
          "\<lambda>p. NoResponse" "\<lambda>s. Inl SyntaxError" None "''65f0c2a4e13b5a0012345678''" 1000 "[]" "''Title''"]
  by (simp add: trim_def isWhiteSpace_def)

section \<open>The response to an analysed request\<close>

lemma response_independent_of_save:
  "fst (post_analyze generateContent JSON_parse fault new_oid now reqbody db) =
   fst (post_analyze generateContent JSON_parse fault' new_oid now reqbody db)"
  by (simp add: post_analyze_def save_def api_error_def bad_request_def
        split: sum.splits option.splits prod.splits)

text \<open>
  Claim C7, as stated, fails. The reply below passes the validator, so the analysis
  is a genuine one, not the degraded result; its first feature begins with
  \<^verbatim>\<open>Error:\<close>, which is the handler's test for the degraded result, and the request
  is answered 500 with the model's explanation as the error, not 200 with the
  analysis, and nothing is saved.
\<close>

theorem save_outcome_counterexample:
  "fst (analyzeText_try
          (\<lambda>p. Text ''{\"isFake\": true, \"confidence\": 90, \"features\": [\"Error: the cited study does not exist\"], \"explanation\": \"The article cites a study that cannot be found.\"}'')
          (\<lambda>s. Inr (JObj [(''isFake'', JBool True), (''confidence'', JNum (Finite 90)),
                           (''features'', JArr [JStr ''Error: the cited study does not exist'']),
                           (''explanation'', JStr ''The article cites a study that cannot be found.'')]))
          ''Local Bakery Wins Award''
          ''The bakery on Main Street won the regional award for its bread.'') =
     Inr \<lparr>isFake = True, confidence = Finite 90,
          features = [''Error: the cited study does not exist''],
          explanation = ''The article cites a study that cannot be found.''\<rparr> \<and>
   post_analyze
     (\<lambda>p. Text ''{\"isFake\": true, \"confidence\": 90, \"features\": [\"Error: the cited study does not exist\"], \"explanation\": \"The article cites a study that cannot be found.\"}'')
     (\<lambda>s. Inr (JObj [(''isFake'', JBool True), (''confidence'', JNum (Finite 90)),
                      (''features'', JArr [JStr ''Error: the cited study does not exist'']),
                      (''explanation'', JStr ''The article cites a study that cannot be found.'')]))
     None ''65f0c2a4e13b5a0012345678'' 1000
     (JObj [(''title'', JStr ''Local Bakery Wins Award''),
            (''content'', JStr ''The bakery on Main Street won the regional award for its bread.'')])
     [] =
     (\<lparr>status = 500, body = ErrorBody ''The article cites a study that cannot be found.''\<rparr>,
      [],
      [ModelCall (prompt ''Local Bakery Wins Award''
                   ''The bakery on Main Street won the regional award for its bread.''),
       ConsoleLog ''Raw AI response:''
         ''{\"isFake\": true, \"confidence\": 90, \"features\": [\"Error: the cited study does not exist\"], \"explanation\": \"The article cites a study that cannot be found.\"}''])"
proof -
  have a: "validate (JObj [(''isFake'', JBool True), (''confidence'', JNum (Finite 90)),
                           (''features'', JArr [JStr ''Error: the cited study does not exist'']),
                           (''explanation'', JStr ''The article cites a study that cannot be found.'')]) =
      Inr \<lparr>isFake = True, confidence = Finite 90,
           features = [''Error: the cited study does not exist''],
           explanation = ''The article cites a study that cannot be found.''\<rparr>"
    by (simp add: validate_def trim_def isWhiteSpace_def)
  have r: "trim ''{\"isFake\": true, \"confidence\": 90, \"features\": [\"Error: the cited study does not exist\"], \"explanation\": \"The article cites a study that cannot be found.\"}'' =
      ''{\"isFake\": true, \"confidence\": 90, \"features\": [\"Error: the cited study does not exist\"], \"explanation\": \"The article cites a study that cannot be found.\"}''"
    by (simp add: trim_def isWhiteSpace_def)
  have m: "jsonMatch ''{\"isFake\": true, \"confidence\": 90, \"features\": [\"Error: the cited study does not exist\"], \"explanation\": \"The article cites a study that cannot be found.\"}'' \<noteq> None"
    by simp
  have t: "analyzeText_try
          (\<lambda>p. Text ''{\"isFake\": true, \"confidence\": 90, \"features\": [\"Error: the cited study does not exist\"], \"explanation\": \"The article cites a study that cannot be found.\"}'')
          (\<lambda>s. Inr (JObj [(''isFake'', JBool True), (''confidence'', JNum (Finite 90)),
                           (''features'', JArr [JStr ''Error: the cited study does not exist'']),
                           (''explanation'', JStr ''The article cites a study that cannot be found.'')]))
          ''Local Bakery Wins Award''
          ''The bakery on Main Street won the regional award for its bread.'' =
      (Inr \<lparr>isFake = True, confidence = Finite 90,
            features = [''Error: the cited study does not exist''],
            explanation = ''The article cites a study that cannot be found.''\<rparr>,
       [ModelCall (prompt ''Local Bakery Wins Award''
                    ''The bakery on Main Street won the regional award for its bread.''),
        ConsoleLog ''Raw AI response:''
          ''{\"isFake\": true, \"confidence\": 90, \"features\": [\"Error: the cited study does not exist\"], \"explanation\": \"The article cites a study that cannot be found.\"}''])"
    using m by (auto simp: analyzeText_try_def Let_def r a)
  show ?thesis
    by (simp add: post_analyze_valid [OF example_request_valid] analyzeText_def t
          analysis_failed_def startsWith_def)
qed

text \<open>
  Claim C7, amended. The response to any request is the same whether the save
  fails or succeeds. For a request that passed the input checks and whose analysis
  does not have a first feature that begins with \<^verbatim>\<open>Error:\<close> (the handler's test for
  the degraded result), so that the handler goes on to save it, the response is 200
  with the analysis as its body whatever the save does, and a failed save only
  leaves one more line on the console, the database error.
\<close>

theorem save_outcome_does_not_change_response:
  "fst (post_analyze generateContent JSON_parse (Some e) new_oid now reqbody db) =
     fst (post_analyze generateContent JSON_parse None new_oid now reqbody db) \<and>
   (valid_request reqbody t c \<and>
    \<not> analysis_failed (fst (analyzeText generateContent JSON_parse t c)) \<longrightarrow>
      fst (post_analyze generateContent JSON_parse fault new_oid now reqbody db) =
        \<lparr>status = 200,
         body = AnalysisBody (fst (analyzeText generateContent JSON_parse t c))\<rparr> \<and>
      snd (snd (post_analyze generateContent JSON_parse (Some e) new_oid now reqbody db)) =
        snd (analyzeText generateContent JSON_parse t c) @
          [ConsoleErrorOf ''Database error:'' e])"
proof -
  have "fst (post_analyze generateContent JSON_parse fault new_oid now reqbody db) =
        \<lparr>status = 200,
         body = AnalysisBody (fst (analyzeText generateContent JSON_parse t c))\<rparr> \<and>
      snd (snd (post_analyze generateContent JSON_parse (Some e) new_oid now reqbody db)) =
        snd (analyzeText generateContent JSON_parse t c) @
          [ConsoleErrorOf ''Database error:'' e]"
    if "valid_request reqbody t c"
       "\<not> analysis_failed (fst (analyzeText generateContent JSON_parse t c))"
    using that
    by (cases "analyzeText generateContent JSON_parse t c") (simp add: post_analyze_valid)
  then show ?thesis
    using response_independent_of_save
      [of generateContent JSON_parse "Some e" new_oid now reqbody db None]
    by blast
qed

lemma example_reply_valid:
  "validate
     (JObj [(''isFake'', JBool False), (''confidence'', JNum (Finite 92)),
            (''features'', JArr [JStr ''Verified by two sources'']),
            (''explanation'', JStr ''Claims match public records.'')]) =
     Inr \<lparr>isFake = False, confidence = Finite 92, features = [''Verified by two sources''],
          explanation = ''Claims match public records.''\<rparr>"
  by (simp add: validate_def trim_def isWhiteSpace_def)

lemma example_analysis:
  "fst (analyzeText (\<lambda>p. Text ''{\"isFake\": false, \"confidence\": 92, \"features\": [\"Verified by two sources\"], \"explanation\": \"Claims match public records.\"}'')
          (\<lambda>s. Inr (JObj [(''isFake'', JBool False), (''confidence'', JNum (Finite 92)),
                           (''features'', JArr [JStr ''Verified by two sources'']),
                           (''explanation'', JStr ''Claims match public records.'')]))
          t c) =
     \<lparr>isFake = False, confidence = Finite 92, features = [''Verified by two sources''],
      explanation = ''Claims match public records.''\<rparr>"
  by (simp add: analyzeText_def analyzeText_try_def example_reply_valid trim_def
        isWhiteSpace_def)

theorem save_outcome_does_not_change_response_witness:
  "fst (post_analyze (\<lambda>p. Text ''{\"isFake\": false, \"confidence\": 92, \"features\": [\"Verified by two sources\"], \"explanation\": \"Claims match public records.\"}'')
          (\<lambda>s. Inr (JObj [(''isFake'', JBool False), (''confidence'', JNum (Finite 92)),
                           (''features'', JArr [JStr ''Verified by two sources'']),
                           (''explanation'', JStr ''Claims match public records.'')]))
          (Some (Error ''store down'')) ''65f0c2a4e13b5a0012345678'' 1000
          (JObj [(''title'', JStr ''Local Bakery Wins Award''),
                 (''content'', JStr ''The bakery on Main Street won the regional award for its bread.'')])
          []) =
     \<lparr>status = 200,
      body = AnalysisBody
        \<lparr>isFake = False, confidence = Finite 92, features = [''Verified by two sources''],
         explanation = ''Claims match public records.''\<rparr>\<rparr>"
proof -
  have n: "\<not> analysis_failed
      (fst (analyzeText (\<lambda>p. Text ''{\"isFake\": false, \"confidence\": 92, \"features\": [\"Verified by two sources\"], \"explanation\": \"Claims match public records.\"}'')
              (\<lambda>s. Inr (JObj [(''isFake'', JBool False), (''confidence'', JNum (Finite 92)),
                               (''features'', JArr [JStr ''Verified by two sources'']),
                               (''explanation'', JStr ''Claims match public records.'')]))
              ''Local Bakery Wins Award''
              ''The bakery on Main Street won the regional award for its bread.''))"
    by (simp add: example_analysis analysis_failed_def startsWith_def)
  note w = save_outcome_does_not_change_response
      [where generateContent = "\<lambda>p. Text ''{\"isFake\": false, \"confidence\": 92, \"features\": [\"Verified by two sources\"], \"explanation\": \"Claims match public records.\"}''"
         and JSON_parse = "\<lambda>s. Inr (JObj [(''isFake'', JBool False),
                           (''confidence'', JNum (Finite 92)),
                           (''features'', JArr [JStr ''Verified by two sources'']),
                           (''explanation'', JStr ''Claims match public records.'')])"
         and reqbody = "JObj [(''title'', JStr ''Local Bakery Wins Award''),
                 (''content'', JStr ''The bakery on Main Street won the regional award for its bread.'')]"
         and t = "''Local Bakery Wins Award''"
         and c = "''The bakery on Main Street won the regional award for its bread.''"
         and fault = "Some (Error ''store down'')" and e = "Error ''store down''"
         and new_oid = "''65f0c2a4e13b5a0012345678''" and now = 1000 and db = "[]"]
  from w example_request_valid n
  have "fst (post_analyze (\<lambda>p. Text ''{\"isFake\": false, \"confidence\": 92, \"features\": [\"Verified by two sources\"], \"explanation\": \"Claims match public records.\"}'')
          (\<lambda>s. Inr (JObj [(''isFake'', JBool False), (''confidence'', JNum (Finite 92)),
                           (''features'', JArr [JStr ''Verified by two sources'']),
                           (''explanation'', JStr ''Claims match public records.'')]))
          (Some (Error ''store down'')) ''65f0c2a4e13b5a0012345678'' 1000
          (JObj [(''title'', JStr ''Local Bakery Wins Award''),
                 (''content'', JStr ''The bakery on Main Street won the regional award for its bread.'')])
          []) =
     \<lparr>status = 200,
      body = AnalysisBody
        (fst (analyzeText (\<lambda>p. Text ''{\"isFake\": false, \"confidence\": 92, \"features\": [\"Verified by two sources\"], \"explanation\": \"Claims match public records.\"}'')
              (\<lambda>s. Inr (JObj [(''isFake'', JBool False), (''confidence'', JNum (Finite 92)),
                               (''features'', JArr [JStr ''Verified by two sources'']),
                               (''explanation'', JStr ''Claims match public records.'')]))
              ''Local Bakery Wins Award''
              ''The bakery on Main Street won the regional award for its bread.''))\<rparr>"
    by blast
  then show ?thesis by (simp add: example_analysis)
qed

text \<open>
  Claim C1 fails on the code at one point. The reply below passes the validator,
  whose test of \<^verbatim>\<open>features\<close> is made before the elements are trimmed and the empty
  ones dropped and is not repeated afterwards: the response is 200 with an empty
  \<^verbatim>\<open>features\<close>, which the test \<^verbatim>\<open>No analysis features found\<close> of the same function
  was written to exclude.
\<close>

theorem empty_features_sent_with_200:
  "fst (post_analyze
          (\<lambda>p. Text ''{\"isFake\": false, \"confidence\": 50, \"features\": [\" \"], \"explanation\": \"x\"}'')
          (\<lambda>s. Inr (JObj [(''isFake'', JBool False), (''confidence'', JNum (Finite 50)),
                           (''features'', JArr [JStr '' '']), (''explanation'', JStr ''x'')]))
          None ''65f0c2a4e13b5a0012345678'' 1000
          (JObj [(''title'', JStr ''Local Bakery Wins Award''),
                 (''content'', JStr ''The bakery on Main Street won the regional award for its bread.'')])
          []) =
     \<lparr>status = 200,
      body = AnalysisBody
        \<lparr>isFake = False, confidence = Finite 50, features = [], explanation = ''x''\<rparr>\<rparr>"
proof -
  have a: "validate (JObj [(''isFake'', JBool False), (''confidence'', JNum (Finite 50)),
                           (''features'', JArr [JStr '' '']), (''explanation'', JStr ''x'')]) =
      Inr \<lparr>isFake = False, confidence = Finite 50, features = [], explanation = ''x''\<rparr>"
    by (simp add: validate_def trim_def isWhiteSpace_def)
  have m: "jsonMatch (trim ''{\"isFake\": false, \"confidence\": 50, \"features\": [\" \"], \"explanation\": \"x\"}'') =
      Some ''{\"isFake\": false, \"confidence\": 50, \"features\": [\" \"], \"explanation\": \"x\"}''"
    by (simp add: trim_def isWhiteSpace_def)
  have r: "fst (analyzeText
          (\<lambda>p. Text ''{\"isFake\": false, \"confidence\": 50, \"features\": [\" \"], \"explanation\": \"x\"}'')
          (\<lambda>s. Inr (JObj [(''isFake'', JBool False), (''confidence'', JNum (Finite 50)),
                           (''features'', JArr [JStr '' '']), (''explanation'', JStr ''x'')]))
          ''Local Bakery Wins Award''
          ''The bakery on Main Street won the regional award for its bread.'') =
      \<lparr>isFake = False, confidence = Finite 50, features = [], explanation = ''x''\<rparr>"
    by (rule analyzeText_genuine [OF refl m refl a])
  show ?thesis
    using post_analyze_genuine [OF example_request_valid, of _ _ None "''65f0c2a4e13b5a0012345678''" 1000 "[]"]
    by (simp add: r analysis_failed_def)
qed

section \<open>The round trip through the extractor and the validator\<close>

lemma jsonMatch_whole:
  "jsonMatch (CHR ''{'' # mid @ [CHR ''}'']) = Some (CHR ''{'' # mid @ [CHR ''}''])"
  using jsonMatch_split [of "[]" "mid @ [CHR ''}'']"] greedy_split [of "[]" mid]
  by simp

lemma trim_each_strings: "trim_each (map JStr fs) = Inr (map trim fs)"
  by (induction fs) simp_all

lemma confidence_in_range:
  "0 \<le> x \<Longrightarrow> x \<le> 100 \<Longrightarrow> 0 \<le> round (x :: rat) \<and> round x \<le> 100"
  by (auto simp: round_def)

text \<open>
  Claim C5, as stated, fails. An explanation of one space is a non-empty string, and
  the reply that holds it is rejected: the result is the degraded one. A feature of
  one space is a non-empty string, and it is dropped from the result, which is then
  not the list of the trimmed features.
\<close>

theorem extractor_validator_roundtrip_counterexample:
  "'' '' \<noteq> [] \<and>
   fst (analyzeText
          (\<lambda>p. Text ''{\"isFake\": true, \"confidence\": 85, \"features\": [\"cited\"], \"explanation\": \" \"}'')
          (\<lambda>s. Inr (JObj [(''isFake'', JBool True), (''confidence'', JNum (Finite 85)),
                           (''features'', JArr [JStr ''cited'']), (''explanation'', JStr '' '')]))
          ''T'' ''C'') =
     \<lparr>isFake = False, confidence = Finite 0, features = [''Error: Content analysis failed''],
      explanation = ''The analysis service is currently experiencing issues. Please wait a moment and try again.''\<rparr> \<and>
   features (fst (analyzeText
          (\<lambda>p. Text ''{\"isFake\": true, \"confidence\": 85, \"features\": [\"cited\", \" \"], \"explanation\": \"ok\"}'')
          (\<lambda>s. Inr (JObj [(''isFake'', JBool True), (''confidence'', JNum (Finite 85)),
                           (''features'', JArr [JStr ''cited'', JStr '' '']), (''explanation'', JStr ''ok'')]))
          ''T'' ''C'')) = [''cited''] \<and>
   map trim [''cited'', '' ''] = [''cited'', []]"
proof -
  have s: "trim '' '' = []" "trim ''cited'' = ''cited''" "trim ''ok'' = ''ok''"
    by (simp_all add: trim_def isWhiteSpace_def)
  have m1: "jsonMatch (trim ''{\"isFake\": true, \"confidence\": 85, \"features\": [\"cited\"], \"explanation\": \" \"}'') \<noteq> None"
    by (simp add: trim_def isWhiteSpace_def)
  have m2: "jsonMatch (trim ''{\"isFake\": true, \"confidence\": 85, \"features\": [\"cited\", \" \"], \"explanation\": \"ok\"}'') \<noteq> None"
    by (simp add: trim_def isWhiteSpace_def)
  show ?thesis
    using m1 m2
    by (auto simp: analyzeText_def analyzeText_try_def validate_def s degraded_def)
qed

text \<open>
  Claim C5, amended. For every reply whose trimmed text begins with \<^verbatim>\<open>{\<close> and ends
  with \<^verbatim>\<open>}\<close> and parses to a value with a boolean isFake, a confidence from 0 to
  100, a list of strings as features of which at least one is not empty after
  trimming, and an explanation that is not empty after trimming, the result of
  \<^verbatim>\<open>analyzeText\<close> has that isFake, the confidence rounded to the nearest integer
  (still from 0 to 100), the trimmed features without those that trimming
  emptied (a non-empty list), and the trimmed explanation.
\<close>

theorem extractor_validator_roundtrip:
  assumes "generateContent (prompt t c) = Text raw"
    and "trim raw = CHR ''{'' # mid @ [CHR ''}'']"
    and "JSON_parse (trim raw) = Inr a"
    and "getprop a ''isFake'' = JBool b"
    and "getprop a ''confidence'' = JNum (Finite x)" and "0 \<le> x" and "x \<le> 100"
    and "getprop a ''features'' = JArr (map JStr fs)" and "\<exists>f \<in> set fs. trim f \<noteq> []"
    and "getprop a ''explanation'' = JStr e" and "trim e \<noteq> []"
  shows
    "fst (analyzeText generateContent JSON_parse t c) =
       \<lparr>isFake = b,
        confidence = Finite (of_int (round x)),
        features = filter (\<lambda>f. f \<noteq> []) (map trim fs),
        explanation = trim e\<rparr> \<and>
     0 \<le> round x \<and> round x \<le> 100 \<and>
     filter (\<lambda>f. f \<noteq> []) (map trim fs) \<noteq> []"
proof -
  from assms(4) have n: "\<not> nullish a" by (cases a) simp_all
  from assms(9) have fs: "map JStr fs \<noteq> []" by auto
  have v: "validate a =
      Inr \<lparr>isFake = b, confidence = Finite (of_int (round x)),
           features = filter (\<lambda>f. f \<noteq> []) (map trim fs), explanation = trim e\<rparr>"
    using n assms(4,5,6,7,8,10,11) fs by (simp add: validate_def trim_each_strings)
  have m: "jsonMatch (trim raw) = Some (trim raw)"
    unfolding assms(2) by (rule jsonMatch_whole)
  have "fst (analyzeText generateContent JSON_parse t c) =
      \<lparr>isFake = b, confidence = Finite (of_int (round x)),
       features = filter (\<lambda>f. f \<noteq> []) (map trim fs), explanation = trim e\<rparr>"
    using assms(1) m assms(3) v by (rule analyzeText_genuine)
  moreover have "filter (\<lambda>f. f \<noteq> []) (map trim fs) \<noteq> []"
    using assms(9) by (auto simp: filter_empty_conv)
  ultimately show ?thesis using confidence_in_range [OF assms(6,7)] by simp
qed

theorem extractor_validator_roundtrip_witness:
  "fst (analyzeText
          (\<lambda>p. Text '' {\"isFake\": true, \"confidence\": 84.5, \"features\": [\" cited \", \"  \"], \"explanation\": \" ok \"}  '')
          (\<lambda>s. Inr (JObj [(''isFake'', JBool True), (''confidence'', JNum (Finite (169 / 2))),
                           (''features'', JArr [JStr '' cited '', JStr ''  '']),
                           (''explanation'', JStr '' ok '')]))
          ''T'' ''C'') =
     \<lparr>isFake = True, confidence = Finite 85, features = [''cited''], explanation = ''ok''\<rparr>"
proof -
  have r: "round (169 / 2 :: rat) = 85"
    by (simp add: round_def)
  have t: "trim '' {\"isFake\": true, \"confidence\": 84.5, \"features\": [\" cited \", \"  \"], \"explanation\": \" ok \"}  '' =
      CHR ''{'' # ''\"isFake\": true, \"confidence\": 84.5, \"features\": [\" cited \", \"  \"], \"explanation\": \" ok \"'' @ [CHR ''}'']"
    by (simp add: trim_def isWhiteSpace_def)
  have s: "trim '' cited '' = ''cited''" "trim ''  '' = []" "trim '' ok '' = ''ok''"
    by (simp_all add: trim_def isWhiteSpace_def)
  show ?thesis
    using extractor_validator_roundtrip
      [where generateContent = "\<lambda>p. Text '' {\"isFake\": true, \"confidence\": 84.5, \"features\": [\" cited \", \"  \"], \"explanation\": \" ok \"}  ''"
         and JSON_parse = "\<lambda>s. Inr (JObj [(''isFake'', JBool True), (''confidence'', JNum (Finite (169 / 2))),
                           (''features'', JArr [JStr '' cited '', JStr ''  '']),
                           (''explanation'', JStr '' ok '')])"
         and t = "''T''" and c = "''C''" and b = True and x = "169 / 2"
         and fs = "['' cited '', ''  '']" and e = "'' ok ''", OF refl t refl]
    by (simp add: r s)
qed

section \<open>The history endpoints\<close>

lemma newest_first_sorted:
  "sorted_wrt (\<lambda>d d'. createdAt d' \<le> createdAt d) (sort_key (\<lambda>d. - createdAt d) db)"
proof -
  have "sorted (map (\<lambda>d. - createdAt d) (sort_key (\<lambda>d. - createdAt d) db))"
    by (rule sorted_sort_key)
  then show ?thesis by (simp add: sorted_map)
qed

lemma sorted_wrt_take_drop:
  "sorted_wrt R xs \<Longrightarrow> x \<in> set (take n xs) \<Longrightarrow> y \<in> set (drop n xs) \<Longrightarrow> R x y"
  using sorted_wrt_append [of R "take n xs" "drop n xs"] by simp

lemma find_recent_properties:
  assumes "find_recent None db = Resolved h"
  shows "length h = min 10 (length db)"
    and "sorted_wrt (\<lambda>d d'. createdAt d' \<le> createdAt d) h"
    and "mset h \<subseteq># mset db"
    and "\<And>d d'. d \<in># mset db - mset h \<Longrightarrow> d' \<in> set h \<Longrightarrow> createdAt d \<le> createdAt d'"
proof -
  define s where "s = sort_key (\<lambda>d. - createdAt d) db"
  from assms have h: "h = take 10 s" by (simp add: find_recent_def s_def)
  have ms: "mset s = mset db" by (simp add: s_def)
  have split: "mset db = mset h + mset (drop 10 s)"
    unfolding h ms [symmetric] by (metis append_take_drop_id mset_append)
  show "length h = min 10 (length db)"
    using h by (simp add: s_def min.commute)
  have srt: "sorted_wrt (\<lambda>d d'. createdAt d' \<le> createdAt d) s"
    unfolding s_def by (rule newest_first_sorted)
  then show "sorted_wrt (\<lambda>d d'. createdAt d' \<le> createdAt d) h"
    unfolding h by (rule sorted_wrt_take)
  show "mset h \<subseteq># mset db"
    unfolding split by simp
  show "createdAt d \<le> createdAt d'" if "d \<in># mset db - mset h" "d' \<in> set h" for d d'
  proof -
    from that(1) have "d \<in> set (drop 10 s)" by (simp add: split)
    with srt that(2) show ?thesis unfolding h by (rule sorted_wrt_take_drop)
  qed
qed

text \<open>
  Claim C8. \<^verbatim>\<open>GET /api/history\<close> always answers 200. Its body is a list of at most 10
  documents of the collection, each no older than the next; when the query went
  through it holds 10 documents, or all of them when there are fewer, and no
  document left out is newer than one in the list; when the query failed it is the
  empty list.
\<close>

theorem history_newest_first_at_most_ten:
  "status (get_history fault db) = 200 \<and>
   (\<exists>h. body (get_history fault db) = HistoryBody h \<and>
        length h \<le> 10 \<and>
        sorted_wrt (\<lambda>d d'. createdAt d' \<le> createdAt d) h \<and>
        mset h \<subseteq># mset db \<and>
        (fault = None \<longrightarrow>
           length h = min 10 (length db) \<and>
           (\<forall>d d'. d \<in># mset db - mset h \<and> d' \<in> set h \<longrightarrow> createdAt d \<le> createdAt d')) \<and>
        (fault \<noteq> None \<longrightarrow> h = []))"
proof (cases fault)
  case None
  obtain h where h: "find_recent None db = Resolved h"
    by (simp add: find_recent_def)
  have "body (get_history fault db) = HistoryBody h" "status (get_history fault db) = 200"
    using h None by (simp_all add: get_history_def)
  moreover have "length h \<le> 10" using find_recent_properties(1) [OF h] by simp
  ultimately show ?thesis
    using None find_recent_properties [OF h] by blast
next
  case (Some e)
  then show ?thesis by (simp add: get_history_def find_recent_def)
qed

theorem history_newest_first_at_most_ten_witness:
  "get_history (Some (Error ''buffering timed out''))
     [\<lparr>isFake = False, confidence = Finite 92, features = [''f''], explanation = ''e'',
       oid = ''65f0c2a4e13b5a0012345601'', title = ''t'', content = ''c'', createdAt = 3\<rparr>] =
     \<lparr>status = 200, body = HistoryBody []\<rparr> \<and>
   (\<exists>h. get_history None
          [\<lparr>isFake = False, confidence = Finite 92, features = [''f''], explanation = ''e'',
            oid = ''65f0c2a4e13b5a0012345601'', title = ''t'', content = ''c'', createdAt = 3\<rparr>,
           \<lparr>isFake = True, confidence = Finite 10, features = [''g''], explanation = ''e'',
            oid = ''65f0c2a4e13b5a0012345602'', title = ''t'', content = ''c'', createdAt = 7\<rparr>] =
          \<lparr>status = 200, body = HistoryBody h\<rparr> \<and>
        length h = 2 \<and> sorted_wrt (\<lambda>d d'. createdAt d' \<le> createdAt d) h)"
  using
    history_newest_first_at_most_ten
      [of "Some (Error ''buffering timed out'')"
          "[\<lparr>isFake = False, confidence = Finite 92, features = [''f''], explanation = ''e'',
             oid = ''65f0c2a4e13b5a0012345601'', title = ''t'', content = ''c'', createdAt = 3\<rparr>]"]
    history_newest_first_at_most_ten
      [of None
          "[\<lparr>isFake = False, confidence = Finite 92, features = [''f''], explanation = ''e'',
             oid = ''65f0c2a4e13b5a0012345601'', title = ''t'', content = ''c'', createdAt = 3\<rparr>,
            \<lparr>isFake = True, confidence = Finite 10, features = [''g''], explanation = ''e'',
             oid = ''65f0c2a4e13b5a0012345602'', title = ''t'', content = ''c'', createdAt = 7\<rparr>]"]
  by (auto intro!: response.equality)

lemma find_oid_None: "i \<notin> oid ` set db \<Longrightarrow> find (\<lambda>d. oid d = i) db = None"
  by (auto simp: find_None_iff)

lemma find_oid_Some: "i \<in> oid ` set db \<Longrightarrow> \<exists>d. find (\<lambda>d. oid d = i) db = Some d"
  by (cases "find (\<lambda>d. oid d = i) db") (auto simp: find_None_iff)

lemma set_remove_oid:
  "distinct (map oid db) \<Longrightarrow> set (remove_oid i db) = {d \<in> set db. oid d \<noteq> i}"
  by (induction db) (auto simp: image_iff)

lemma get_history_subset:
  "body (get_history f db) = HistoryBody h \<Longrightarrow> set h \<subseteq> set db"
  by (cases f) (auto simp: get_history_def find_recent_def dest: in_set_takeD)

text \<open>
  Claim C9, as stated, fails. No document has the identifier \<^verbatim>\<open>zz\<close>, which no
  version of the driver can cast to an ObjectId, and the request to delete it is
  answered 500 with the cast error as its details, not 404.
\<close>

theorem delete_by_id_counterexample:
  "''zz'' \<notin> oid ` set
     [\<lparr>isFake = False, confidence = Finite 92, features = [''f''], explanation = ''e'',
       oid = ''65f0c2a4e13b5a0012345601'', title = ''t'', content = ''c'', createdAt = 3\<rparr>,
      \<lparr>isFake = True, confidence = Finite 10, features = [''g''], explanation = ''e'',
       oid = ''65f0c2a4e13b5a0012345602'', title = ''t'', content = ''c'', createdAt = 7\<rparr>] \<and>
   delete_history hexObjectId None ''zz''
     [\<lparr>isFake = False, confidence = Finite 92, features = [''f''], explanation = ''e'',
       oid = ''65f0c2a4e13b5a0012345601'', title = ''t'', content = ''c'', createdAt = 3\<rparr>,
      \<lparr>isFake = True, confidence = Finite 10, features = [''g''], explanation = ''e'',
       oid = ''65f0c2a4e13b5a0012345602'', title = ''t'', content = ''c'', createdAt = 7\<rparr>] =
     (\<lparr>status = 500, body = ErrorDetails ''Failed to delete item'' CastError\<rparr>,
      [\<lparr>isFake = False, confidence = Finite 92, features = [''f''], explanation = ''e'',
       oid = ''65f0c2a4e13b5a0012345601'', title = ''t'', content = ''c'', createdAt = 3\<rparr>,
      \<lparr>isFake = True, confidence = Finite 10, features = [''g''], explanation = ''e'',
       oid = ''65f0c2a4e13b5a0012345602'', title = ''t'', content = ''c'', createdAt = 7\<rparr>],
      [ConsoleErrorOf ''Delete error:'' CastError])"
  by (simp add: delete_history_def findByIdAndDelete_def hexObjectId_def)

text \<open>
  Claim C9, amended. When the identifier of the path can be cast to an ObjectId and
  the store answers: if no document has that ObjectId,
  \<^verbatim>\<open>DELETE /api/history/:id\<close> answers 404 with the error \<^verbatim>\<open>Item not found\<close> and the
  collection is unchanged; if a document has it, the answer is 200 with the success
  message, and, identifiers being unique in the collection, exactly the documents
  with another identifier remain, so that no later history listing holds it. When
  the store call rejects, the answer is 500 and the collection is unchanged; an
  identifier that cannot be cast is such a rejection, with the cast error.
\<close>

theorem delete_by_id:
  "(castObjectId i = Some k \<and> k \<notin> oid ` set db \<longrightarrow>
      delete_history castObjectId None i db =
        (\<lparr>status = 404, body = ErrorBody ''Item not found''\<rparr>, db, [])) \<and>
   (castObjectId i = Some k \<and> k \<in> oid ` set db \<longrightarrow>
      fst (delete_history castObjectId None i db) =
        \<lparr>status = 200, body = SuccessBody ''Item deleted successfully''\<rparr> \<and>
      (distinct (map oid db) \<longrightarrow>
         set (fst (snd (delete_history castObjectId None i db))) = {d \<in> set db. oid d \<noteq> k} \<and>
         (\<forall>f h. body (get_history f (fst (snd (delete_history castObjectId None i db)))) =
                  HistoryBody h
                \<longrightarrow> k \<notin> oid ` set h))) \<and>
   (castObjectId i = Some k \<longrightarrow>
      delete_history castObjectId (Some e) i db =
        (\<lparr>status = 500, body = ErrorDetails ''Failed to delete item'' e\<rparr>, db,
         [ConsoleErrorOf ''Delete error:'' e])) \<and>
   (castObjectId i = None \<longrightarrow>
      delete_history castObjectId fault i db =
        (\<lparr>status = 500, body = ErrorDetails ''Failed to delete item'' CastError\<rparr>, db,
         [ConsoleErrorOf ''Delete error:'' CastError]))"
proof (intro conjI impI; (elim conjE)?)
  assume "castObjectId i = None"
  then show "delete_history castObjectId fault i db =
        (\<lparr>status = 500, body = ErrorDetails ''Failed to delete item'' CastError\<rparr>, db,
         [ConsoleErrorOf ''Delete error:'' CastError])"
    by (simp add: delete_history_def findByIdAndDelete_def)
next
  assume "castObjectId i = Some k"
  then show "delete_history castObjectId (Some e) i db =
        (\<lparr>status = 500, body = ErrorDetails ''Failed to delete item'' e\<rparr>, db,
         [ConsoleErrorOf ''Delete error:'' e])"
    by (simp add: delete_history_def findByIdAndDelete_def)
next
  assume "castObjectId i = Some k" "k \<notin> oid ` set db"
  then show "delete_history castObjectId None i db =
        (\<lparr>status = 404, body = ErrorBody ''Item not found''\<rparr>, db, [])"
    by (simp add: delete_history_def findByIdAndDelete_def find_oid_None)
next
  assume k: "castObjectId i = Some k" and "k \<in> oid ` set db"
  then obtain d where d: "find (\<lambda>d. oid d = k) db = Some d"
    using find_oid_Some by blast
  with k show "fst (delete_history castObjectId None i db) =
        \<lparr>status = 200, body = SuccessBody ''Item deleted successfully''\<rparr>"
    by (simp add: delete_history_def findByIdAndDelete_def)
  have st: "fst (snd (delete_history castObjectId None i db)) = remove_oid k db"
    using d k by (simp add: delete_history_def findByIdAndDelete_def)
  assume dist: "distinct (map oid db)"
  show "set (fst (snd (delete_history castObjectId None i db))) = {d \<in> set db. oid d \<noteq> k}"
    unfolding st using dist by (rule set_remove_oid)
  show "\<forall>f h. body (get_history f (fst (snd (delete_history castObjectId None i db)))) =
                  HistoryBody h
                \<longrightarrow> k \<notin> oid ` set h"
    unfolding st using set_remove_oid [OF dist, of k] get_history_subset by fastforce
qed

lemma hexObjectId_examples:
  "hexObjectId ''65f0c2a4e13b5a0012345601'' = Some ''65f0c2a4e13b5a0012345601''"
  "hexObjectId ''65F0C2A4E13B5A0012345601'' = Some ''65f0c2a4e13b5a0012345601''"
  "hexObjectId ''65f0c2a4e13b5a00123456ff'' = Some ''65f0c2a4e13b5a00123456ff''"
  "hexObjectId ''zz'' = None"
  by (simp_all add: hexObjectId_def isHexDigit_def lowerHex_def)

theorem delete_by_id_witness:
  "delete_history hexObjectId None ''65f0c2a4e13b5a00123456ff''
     [\<lparr>isFake = False, confidence = Finite 92, features = [''f''], explanation = ''e'',
       oid = ''65f0c2a4e13b5a0012345601'', title = ''t'', content = ''c'', createdAt = 3\<rparr>,
      \<lparr>isFake = True, confidence = Finite 10, features = [''g''], explanation = ''e'',
       oid = ''65f0c2a4e13b5a0012345602'', title = ''t'', content = ''c'', createdAt = 7\<rparr>] =
     (\<lparr>status = 404, body = ErrorBody ''Item not found''\<rparr>,
      [\<lparr>isFake = False, confidence = Finite 92, features = [''f''], explanation = ''e'',
       oid = ''65f0c2a4e13b5a0012345601'', title = ''t'', content = ''c'', createdAt = 3\<rparr>,
      \<lparr>isFake = True, confidence = Finite 10, features = [''g''], explanation = ''e'',
       oid = ''65f0c2a4e13b5a0012345602'', title = ''t'', content = ''c'', createdAt = 7\<rparr>], []) \<and>
   fst (delete_history hexObjectId None ''65F0C2A4E13B5A0012345601''
     [\<lparr>isFake = False, confidence = Finite 92, features = [''f''], explanation = ''e'',
       oid = ''65f0c2a4e13b5a0012345601'', title = ''t'', content = ''c'', createdAt = 3\<rparr>,
      \<lparr>isFake = True, confidence = Finite 10, features = [''g''], explanation = ''e'',
       oid = ''65f0c2a4e13b5a0012345602'', title = ''t'', content = ''c'', createdAt = 7\<rparr>]) =
     \<lparr>status = 200, body = SuccessBody ''Item deleted successfully''\<rparr> \<and>
   body (get_history None (fst (snd (delete_history hexObjectId None ''65F0C2A4E13B5A0012345601''
     [\<lparr>isFake = False, confidence = Finite 92, features = [''f''], explanation = ''e'',
       oid = ''65f0c2a4e13b5a0012345601'', title = ''t'', content = ''c'', createdAt = 3\<rparr>,
      \<lparr>isFake = True, confidence = Finite 10, features = [''g''], explanation = ''e'',
       oid = ''65f0c2a4e13b5a0012345602'', title = ''t'', content = ''c'', createdAt = 7\<rparr>])))) =
     HistoryBody
      [\<lparr>isFake = True, confidence = Finite 10, features = [''g''], explanation = ''e'',
       oid = ''65f0c2a4e13b5a0012345602'', title = ''t'', content = ''c'', createdAt = 7\<rparr>] \<and>
   fst (delete_history hexObjectId (Some (Error ''buffering timed out'')) ''65f0c2a4e13b5a0012345601''
     [\<lparr>isFake = False, confidence = Finite 92, features = [''f''], explanation = ''e'',
       oid = ''65f0c2a4e13b5a0012345601'', title = ''t'', content = ''c'', createdAt = 3\<rparr>,
      \<lparr>isFake = True, confidence = Finite 10, features = [''g''], explanation = ''e'',
       oid = ''65f0c2a4e13b5a0012345602'', title = ''t'', content = ''c'', createdAt = 7\<rparr>]) =
     \<lparr>status = 500,
      body = ErrorDetails ''Failed to delete item'' (Error ''buffering timed out'')\<rparr> \<and>
   fst (delete_history hexObjectId None ''zz''
     [\<lparr>isFake = False, confidence = Finite 92, features = [''f''], explanation = ''e'',
       oid = ''65f0c2a4e13b5a0012345601'', title = ''t'', content = ''c'', createdAt = 3\<rparr>,
      \<lparr>isFake = True, confidence = Finite 10, features = [''g''], explanation = ''e'',
       oid = ''65f0c2a4e13b5a0012345602'', title = ''t'', content = ''c'', createdAt = 7\<rparr>]) =
     \<lparr>status = 500, body = ErrorDetails ''Failed to delete item'' CastError\<rparr>"
  using
    delete_by_id [of hexObjectId "''65f0c2a4e13b5a00123456ff''" "''65f0c2a4e13b5a00123456ff''"
      "[\<lparr>isFake = False, confidence = Finite 92, features = [''f''], explanation = ''e'',
       oid = ''65f0c2a4e13b5a0012345601'', title = ''t'', content = ''c'', createdAt = 3\<rparr>,
      \<lparr>isFake = True, confidence = Finite 10, features = [''g''], explanation = ''e'',
       oid = ''65f0c2a4e13b5a0012345602'', title = ''t'', content = ''c'', createdAt = 7\<rparr>]"]
    delete_by_id [of hexObjectId "''65F0C2A4E13B5A0012345601''" "''65f0c2a4e13b5a0012345601''"
      "[\<lparr>isFake = False, confidence = Finite 92, features = [''f''], explanation = ''e'',
       oid = ''65f0c2a4e13b5a0012345601'', title = ''t'', content = ''c'', createdAt = 3\<rparr>,
      \<lparr>isFake = True, confidence = Finite 10, features = [''g''], explanation = ''e'',
       oid = ''65f0c2a4e13b5a0012345602'', title = ''t'', content = ''c'', createdAt = 7\<rparr>]"
      "Error ''buffering timed out''"]
    delete_by_id [of hexObjectId "''65f0c2a4e13b5a0012345601''" "''65f0c2a4e13b5a0012345601''"
      "[\<lparr>isFake = False, confidence = Finite 92, features = [''f''], explanation = ''e'',
       oid = ''65f0c2a4e13b5a0012345601'', title = ''t'', content = ''c'', createdAt = 3\<rparr>,
      \<lparr>isFake = True, confidence = Finite 10, features = [''g''], explanation = ''e'',
       oid = ''65f0c2a4e13b5a0012345602'', title = ''t'', content = ''c'', createdAt = 7\<rparr>]"
      "Error ''buffering timed out''"]
    delete_by_id [of hexObjectId "''zz''" _
      "[\<lparr>isFake = False, confidence = Finite 92, features = [''f''], explanation = ''e'',
       oid = ''65f0c2a4e13b5a0012345601'', title = ''t'', content = ''c'', createdAt = 3\<rparr>,
      \<lparr>isFake = True, confidence = Finite 10, features = [''g''], explanation = ''e'',
       oid = ''65f0c2a4e13b5a0012345602'', title = ''t'', content = ''c'', createdAt = 7\<rparr>]" _ None]
  by (simp add: hexObjectId_examples delete_history_def findByIdAndDelete_def get_history_def
        find_recent_def)

section \<open>What a checked request is answered with, and what is stored\<close>

lemma validate_Inr_shape:
  assumes "validate x = Inr a"
  shows "(\<exists>n. confidence a = Finite (of_int n) \<and> 0 \<le> n \<and> n \<le> 100) \<and>
         (\<forall>f \<in> set (features a). f \<noteq> []) \<and> explanation a \<noteq> []"
proof -
  from assms obtain b cf fs e ts where
    c: "\<not> num_lt cf 0" "\<not> num_gt cf 100"
    and e: "trim e \<noteq> []"
    and a: "a = \<lparr>isFake = b, confidence = Math_round cf,
                 features = filter (\<lambda>f. f \<noteq> []) ts, explanation = trim e\<rparr>"
    by (auto simp: validate_def split: if_splits jsval.splits sum.splits)
  from c obtain q where q: "cf = Finite q" "0 \<le> q" "q \<le> 100"
    by (cases cf) auto
  have "confidence a = Finite (of_int (round q))"
    by (simp add: a q)
  with confidence_in_range [OF q(2,3)] e a show ?thesis by auto
qed

lemma analyzeText_try_Inr:
  "fst (analyzeText_try g p t c) = Inr a \<Longrightarrow> \<exists>x. validate x = Inr a"
  by (auto simp: analyzeText_try_def Let_def split: generated.splits option.splits sum.splits)

lemma analyzeText_cases:
  "fst (analyzeText g p t c) = degraded \<or> (\<exists>x. validate x = Inr (fst (analyzeText g p t c)))"
proof (cases "fst (analyzeText_try g p t c)")
  case (Inl e)
  then show ?thesis by (simp add: analyzeText_failure)
next
  case (Inr a)
  then have "fst (analyzeText g p t c) = a"
    by (cases "analyzeText_try g p t c") (simp add: analyzeText_def)
  with Inr show ?thesis using analyzeText_try_Inr by blast
qed

text \<open>
  A request that passed the input checks is answered 200 or 500, and a 200 response
  carries an analysis whose confidence is an integer from 0 to 100, whose features
  are all non-empty strings and whose explanation is not empty. (That the list of
  features is not empty does not follow: see the reply under claim C1.)
\<close>

theorem valid_request_200_or_500:
  assumes "valid_request reqbody t c"
  shows
    "(status (fst (post_analyze generateContent JSON_parse fault new_oid now reqbody db)) = 200 \<or>
      status (fst (post_analyze generateContent JSON_parse fault new_oid now reqbody db)) = 500) \<and>
     (status (fst (post_analyze generateContent JSON_parse fault new_oid now reqbody db)) = 200 \<longrightarrow>
        (\<exists>a. body (fst (post_analyze generateContent JSON_parse fault new_oid now reqbody db)) =
                AnalysisBody a \<and>
             (\<exists>n. confidence a = Finite (of_int n) \<and> 0 \<le> n \<and> n \<le> 100) \<and>
             (\<forall>f \<in> set (features a). f \<noteq> []) \<and> explanation a \<noteq> []))"
proof (cases "analysis_failed (fst (analyzeText generateContent JSON_parse t c))")
  case True
  then show ?thesis
    using assms
    by (cases "analyzeText generateContent JSON_parse t c") (simp add: post_analyze_valid)
next
  case False
  then have "fst (analyzeText generateContent JSON_parse t c) \<noteq> degraded"
    using degraded_failed by auto
  then obtain x where "validate x = Inr (fst (analyzeText generateContent JSON_parse t c))"
    using analyzeText_cases by blast
  from validate_Inr_shape [OF this] post_analyze_genuine [OF assms False]
  show ?thesis by simp
qed

theorem valid_request_200_or_500_witness:
  "fst (post_analyze (\<lambda>p. Text ''{\"isFake\": false, \"confidence\": 92, \"features\": [\"Verified by two sources\"], \"explanation\": \"Claims match public records.\"}'')
          (\<lambda>s. Inr (JObj [(''isFake'', JBool False), (''confidence'', JNum (Finite 92)),
                           (''features'', JArr [JStr ''Verified by two sources'']),
                           (''explanation'', JStr ''Claims match public records.'')]))
          None ''65f0c2a4e13b5a0012345678'' 1000
          (JObj [(''title'', JStr ''Local Bakery Wins Award''),
                 (''content'', JStr ''The bakery on Main Street won the regional award for its bread.'')])
          []) =
     \<lparr>status = 200,
      body = AnalysisBody
        \<lparr>isFake = False, confidence = Finite 92, features = [''Verified by two sources''],
         explanation = ''Claims match public records.''\<rparr>\<rparr>"
proof -
  have m: "jsonMatch (trim ''{\"isFake\": false, \"confidence\": 92, \"features\": [\"Verified by two sources\"], \"explanation\": \"Claims match public records.\"}'') =
      Some ''{\"isFake\": false, \"confidence\": 92, \"features\": [\"Verified by two sources\"], \"explanation\": \"Claims match public records.\"}''"
    by (simp add: trim_def isWhiteSpace_def)
  have r: "fst (analyzeText
          (\<lambda>p. Text ''{\"isFake\": false, \"confidence\": 92, \"features\": [\"Verified by two sources\"], \"explanation\": \"Claims match public records.\"}'')
          (\<lambda>s. Inr (JObj [(''isFake'', JBool False), (''confidence'', JNum (Finite 92)),
                           (''features'', JArr [JStr ''Verified by two sources'']),
                           (''explanation'', JStr ''Claims match public records.'')]))
          ''Local Bakery Wins Award''
          ''The bakery on Main Street won the regional award for its bread.'') =
      \<lparr>isFake = False, confidence = Finite 92, features = [''Verified by two sources''],
       explanation = ''Claims match public records.''\<rparr>"
    by (rule analyzeText_genuine [OF refl m refl example_reply_valid])
  show ?thesis
    using valid_request_200_or_500 [OF example_request_valid, where fault = None
        and new_oid = "''65f0c2a4e13b5a0012345678''" and now = 1000 and db = "[]"
        and generateContent = "\<lambda>p. Text ''{\"isFake\": false, \"confidence\": 92, \"features\": [\"Verified by two sources\"], \"explanation\": \"Claims match public records.\"}''"
        and JSON_parse = "\<lambda>s. Inr (JObj [(''isFake'', JBool False), (''confidence'', JNum (Finite 92)),
                           (''features'', JArr [JStr ''Verified by two sources'']),
                           (''explanation'', JStr ''Claims match public records.'')])"]
      post_analyze_genuine [OF example_request_valid, of _ _ None "''65f0c2a4e13b5a0012345678''" 1000 "[]"]
    by (simp add: r analysis_failed_def startsWith_def)
qed

text \<open>
  When the handler goes on to save, a successful save appends one document to the
  collection: the analysis, the title and content of the request as they were sent,
  the new identifier and the time. A failed save leaves the collection as it was.
\<close>

theorem genuine_analysis_is_stored:
  assumes "valid_request reqbody t c"
    and "\<not> analysis_failed (fst (analyzeText generateContent JSON_parse t c))"
  shows
    "fst (snd (post_analyze generateContent JSON_parse None new_oid now reqbody db)) =
       db @ [analysis.extend (fst (analyzeText generateContent JSON_parse t c))
               \<lparr>oid = new_oid, title = t, content = c, createdAt = now\<rparr>] \<and>
     fst (snd (post_analyze generateContent JSON_parse (Some e) new_oid now reqbody db)) = db"
  using assms
  by (cases "analyzeText generateContent JSON_parse t c")
     (simp add: post_analyze_valid save_def)

theorem genuine_analysis_is_stored_witness:
  "fst (snd (post_analyze (\<lambda>p. Text ''{\"isFake\": false, \"confidence\": 92, \"features\": [\"Verified by two sources\"], \"explanation\": \"Claims match public records.\"}'')
          (\<lambda>s. Inr (JObj [(''isFake'', JBool False), (''confidence'', JNum (Finite 92)),
                           (''features'', JArr [JStr ''Verified by two sources'']),
                           (''explanation'', JStr ''Claims match public records.'')]))
          None ''65f0c2a4e13b5a0012345678'' 1000
          (JObj [(''title'', JStr ''Local Bakery Wins Award''),
                 (''content'', JStr ''The bakery on Main Street won the regional award for its bread.'')])
          [])) =
     [\<lparr>isFake = False, confidence = Finite 92, features = [''Verified by two sources''],
       explanation = ''Claims match public records.'', oid = ''65f0c2a4e13b5a0012345678'',
       title = ''Local Bakery Wins Award'',
       content = ''The bakery on Main Street won the regional award for its bread.'',
       createdAt = 1000\<rparr>]"
proof -
  have n: "\<not> analysis_failed
      (fst (analyzeText (\<lambda>p. Text ''{\"isFake\": false, \"confidence\": 92, \"features\": [\"Verified by two sources\"], \"explanation\": \"Claims match public records.\"}'')
              (\<lambda>s. Inr (JObj [(''isFake'', JBool False), (''confidence'', JNum (Finite 92)),
                               (''features'', JArr [JStr ''Verified by two sources'']),
                               (''explanation'', JStr ''Claims match public records.'')]))
              ''Local Bakery Wins Award''
              ''The bakery on Main Street won the regional award for its bread.''))"
    by (simp add: example_analysis analysis_failed_def startsWith_def)
  show ?thesis
    using genuine_analysis_is_stored
      [OF example_request_valid n, where new_oid = "''65f0c2a4e13b5a0012345678''" and now = 1000 and db = "[]"
         and e = "Error ''store down''"]
    by (simp add: example_analysis analysis.defs)
qed

end
